theory Spec2Isabelle
  imports Complex_Main "HOL-Library.FSet"
begin

section \<open>Python values and string operations\<close>

text \<open>
  The three scripts (\<^verbatim>\<open>policymaker.py\<close>, \<^verbatim>\<open>optum_policy_maker.py\<close>, \<^verbatim>\<open>ipset_maker.py\<close>)
  read spreadsheet cells and turn them into strings and dictionaries. A cell is a
  dynamically typed value: \<^verbatim>\<open>None\<close>, a Python \<^verbatim>\<open>bool\<close>, \<^verbatim>\<open>int\<close>, \<^verbatim>\<open>float\<close> (an empty cell
  is the float NaN) or \<^verbatim>\<open>str\<close>, or one of the numpy scalars \<^verbatim>\<open>numpy.int64\<close> and
  \<^verbatim>\<open>numpy.bool_\<close>. The numpy scalars are kept apart from \<^verbatim>\<open>int\<close> and \<^verbatim>\<open>bool\<close> because the
  code can tell them apart: they are instances of neither \<^verbatim>\<open>int\<close>, \<^verbatim>\<open>float\<close> nor \<^verbatim>\<open>bool\<close>, and
  \<^verbatim>\<open>json.dump\<close> refuses them. \<^verbatim>\<open>numpy.float64\<close> is a subclass of \<^verbatim>\<open>float\<close> and is the
  constructor \<open>PFloat\<close> too. A finite float is represented by the real number it denotes.

  Where the cells come from: the header row of a policy is \<^verbatim>\<open>policy_df.iloc[0]\<close>, whose
  integer and boolean cells are \<^verbatim>\<open>numpy.int64\<close> and \<^verbatim>\<open>numpy.bool_\<close>; the rule rows and the
  rows of the IP-set sheet come from \<^verbatim>\<open>iterrows()\<close>, which hands out Python's own \<^verbatim>\<open>int\<close>,
  \<^verbatim>\<open>float\<close> and \<^verbatim>\<open>bool\<close>. The functions below accept every kind of cell in every row.

  Strings are lists of characters read as code points below 256. White space is what
  \<^verbatim>\<open>str.isspace\<close> accepts there. Case conversion acts on the letters A-Z and a-z only and
  leaves every other character alone.
\<close>

datatype pyfloat = NaN | PosInf | NegInf | Finite real

datatype pyval = PNone | PBool bool | PInt int | PFloat pyfloat | PStr string
  | PNpInt int | PNpBool bool

text \<open>The exceptions the modelled code can raise. Two different places raise Python's
  \<^verbatim>\<open>ValueError\<close>; the payload tells them apart: \<open>CategoryNotAllowed c\<close> is the
  \<^verbatim>\<open>raise ValueError(...)\<close> of \<^verbatim>\<open>validate_category\<close> for the category text \<open>c\<close>, the two
  others are raised by the builtin \<^verbatim>\<open>int()\<close>.\<close>

datatype value_error = CategoryNotAllowed string | InvalidIntLiteral string | FloatNaNToInt

datatype error = ValueError value_error | AttributeError | TypeError | OverflowError | KeyError string

definition isspace :: "char \<Rightarrow> bool" where
  "isspace c \<longleftrightarrow> c \<in> set [CHR 0x09, CHR 0x0A, CHR 0x0B, CHR 0x0C, CHR 0x0D,
                         CHR 0x1C, CHR 0x1D, CHR 0x1E, CHR 0x1F, CHR 0x20, CHR 0x85, CHR 0xA0]"

text \<open>\<^verbatim>\<open>s.strip()\<close>\<close>

definition strip :: "string \<Rightarrow> string" where
  "strip s = rev (dropWhile isspace (rev (dropWhile isspace s)))"

text \<open>\<^verbatim>\<open>s.split(sep)\<close> for a one-character separator: never an empty list, the empty
  string gives one empty piece. A character other than the separator joins the first piece
  of the rest (the rest always has one).\<close>

fun split :: "string \<Rightarrow> char \<Rightarrow> string list" where
  "split [] sep = [[]]"
| "split (c # cs) sep =
     (if c = sep then [] # split cs sep
      else (case split cs sep of
              [] \<Rightarrow> [[c]]
            | piece # pieces \<Rightarrow> (c # piece) # pieces))"

text \<open>\<^verbatim>\<open>sep.join(xs)\<close>\<close>

fun join :: "string \<Rightarrow> string list \<Rightarrow> string" where
  "join sep [] = []"
| "join sep [x] = x"
| "join sep (x # y # ys) = x @ sep @ join sep (y # ys)"

definition startswith :: "string \<Rightarrow> string \<Rightarrow> bool" where
  "startswith s p \<longleftrightarrow> take (length p) s = p"

definition endswith :: "string \<Rightarrow> string \<Rightarrow> bool" where
  "endswith s p \<longleftrightarrow> length p \<le> length s \<and> drop (length s - length p) s = p"

definition lower_char :: "char \<Rightarrow> char" where
  "lower_char c =
     (case map_of (zip ''ABCDEFGHIJKLMNOPQRSTUVWXYZ'' ''abcdefghijklmnopqrstuvwxyz'') c of
        Some d \<Rightarrow> d | None \<Rightarrow> c)"

definition upper_char :: "char \<Rightarrow> char" where
  "upper_char c =
     (case map_of (zip ''abcdefghijklmnopqrstuvwxyz'' ''ABCDEFGHIJKLMNOPQRSTUVWXYZ'') c of
        Some d \<Rightarrow> d | None \<Rightarrow> c)"

text \<open>\<^verbatim>\<open>s.lower()\<close> and \<^verbatim>\<open>s.upper()\<close>\<close>

definition lower :: "string \<Rightarrow> string" where
  "lower s = map lower_char s"

definition upper :: "string \<Rightarrow> string" where
  "upper s = map upper_char s"

section \<open>The reference resolver\<close>

text \<open>
  \<^verbatim>\<open>construct_variable_reference(type_str, name, category=None)\<close>. The optional category
  is an \<open>option\<close>; \<^verbatim>\<open>if category:\<close> is true for a non-empty string. The prefix \<open>pm_\<close>
  marks the function of \<^verbatim>\<open>policymaker.py\<close>, \<open>optum_\<close> the one of
  \<^verbatim>\<open>optum_policy_maker.py\<close>.
\<close>

definition truthy_category :: "string option \<Rightarrow> bool" where
  "truthy_category category \<longleftrightarrow> (case category of None \<Rightarrow> False | Some c \<Rightarrow> c \<noteq> [])"

definition pm_construct_variable_reference :: "string \<Rightarrow> string \<Rightarrow> string option \<Rightarrow> string" where
  "pm_construct_variable_reference type_str name category =
     (if type_str = ''service'' then
        (if startswith name ''SVCG_'' then ''${var.services_path.'' @ name @ ''}''
         else if endswith name ''_path'' then ''${var.default_services_path.'' @ name @ ''}''
         else name)
      else
        (if truthy_category category then
           (if category = Some ''Infrastructure''
              then ''${var.infra_groups_path.'' @ name @ ''_path}''
            else if category = Some ''Environment''
              then ''${var.env_groups_path.'' @ name @ ''_path}''
            else if category = Some ''Application''
              then ''${var.app_groups_path.'' @ name @ ''_path}''
            else name)
         else name))"

definition optum_construct_variable_reference :: "string \<Rightarrow> string \<Rightarrow> string option \<Rightarrow> string" where
  "optum_construct_variable_reference type_str name category =
     (if type_str = ''service'' then
        (if startswith name ''SVCG_'' then ''${var.services_path.'' @ name @ ''}''
         else if endswith name ''_path'' then ''${var.services_base_path}/'' @ name
         else ''${var.services_base_path}/'' @ name)
      else
        (if truthy_category category then
           (if category = Some ''Infrastructure''
              then ''${var.infra_groups_path.'' @ name @ ''_path}''
            else if category = Some ''Environment''
              then ''${var.env_groups_path.'' @ name @ ''_path}''
            else if category = Some ''Application''
              then ''${var.groups_base_path}/'' @ name
            else ''${var.groups_base_path}/'' @ name)
         else ''${var.groups_base_path}/'' @ name))"

section \<open>Cells, rows and conversions\<close>

text \<open>A row (a pandas \<^verbatim>\<open>Series\<close>) maps column names to cells; \<^verbatim>\<open>row.get(key, default)\<close>
  gives the default only when the column does not exist, an empty cell of an existing
  column is NaN.\<close>

type_synonym row = "string \<rightharpoonup> pyval"

definition get :: "row \<Rightarrow> string \<Rightarrow> pyval \<Rightarrow> pyval" where
  "get r key dflt = (case r key of None \<Rightarrow> dflt | Some v \<Rightarrow> v)"

text \<open>\<^verbatim>\<open>pd.isna\<close> and \<^verbatim>\<open>pd.notna\<close> on a scalar\<close>

fun isna :: "pyval \<Rightarrow> bool" where
  "isna PNone = True"
| "isna (PFloat NaN) = True"
| "isna _ = False"

definition notna :: "pyval \<Rightarrow> bool" where
  "notna v \<longleftrightarrow> \<not> isna v"

fun isinstance_str :: "pyval \<Rightarrow> bool" where
  "isinstance_str (PStr s) = True"
| "isinstance_str _ = False"

text \<open>The number a value denotes when Python compares it with a number: \<^verbatim>\<open>bool\<close> is a
  subclass of \<^verbatim>\<open>int\<close>, and the numpy scalars compare by value.\<close>

fun num_of :: "pyval \<Rightarrow> pyfloat option" where
  "num_of (PBool b) = Some (Finite (if b then 1 else 0))"
| "num_of (PInt i) = Some (Finite (of_int i))"
| "num_of (PFloat f) = Some f"
| "num_of (PNpInt i) = Some (Finite (of_int i))"
| "num_of (PNpBool b) = Some (Finite (if b then 1 else 0))"
| "num_of PNone = None"
| "num_of (PStr s) = None"

text \<open>Python's \<^verbatim>\<open>==\<close> on cells: numbers compare by value (NaN equals nothing), strings with
  strings, and values of unrelated types are unequal.\<close>

definition py_eq :: "pyval \<Rightarrow> pyval \<Rightarrow> bool" where
  "py_eq a b =
     (case (a, b) of
        (PNone, PNone) \<Rightarrow> True
      | (PStr s, PStr t) \<Rightarrow> s = t
      | _ \<Rightarrow> (case (num_of a, num_of b) of
                (Some x, Some y) \<Rightarrow> x \<noteq> NaN \<and> x = y
              | _ \<Rightarrow> False))"

text \<open>\<^verbatim>\<open>convert_to_bool\<close>, the same text in both policy makers. The order of the tests is the
  source's: \<^verbatim>\<open>bool\<close> first, then \<^verbatim>\<open>str\<close>, then \<^verbatim>\<open>(int, float)\<close>. A numpy scalar passes none
  of the three \<^verbatim>\<open>isinstance\<close> tests and falls through to \<^verbatim>\<open>return False\<close>.\<close>

fun convert_to_bool :: "pyval \<Rightarrow> bool" where
  "convert_to_bool (PBool b) = b"
| "convert_to_bool (PStr s) = (upper s = ''TRUE'')"
| "convert_to_bool (PInt i) = (py_eq (PInt i) (PInt 1) \<or> py_eq (PInt i) (PFloat (Finite 1.0)))"
| "convert_to_bool (PFloat f) = (py_eq (PFloat f) (PInt 1) \<or> py_eq (PFloat f) (PFloat (Finite 1.0)))"
| "convert_to_bool PNone = False"
| "convert_to_bool (PNpInt i) = False"
| "convert_to_bool (PNpBool b) = False"

text \<open>\<^verbatim>\<open>validate_category\<close>, the same text in both policy makers. A value without a
  \<^verbatim>\<open>lower\<close> method raises \<^verbatim>\<open>AttributeError\<close>.\<close>

definition valid_categories :: "(string \<times> string) list" where
  "valid_categories =
     [(''application'', ''Application''),
      (''infrastructure'', ''Infrastructure''),
      (''environment'', ''Environment'')]"

definition validate_category :: "pyval \<Rightarrow> error + string" where
  "validate_category category =
     (case category of
        PStr c \<Rightarrow>
          (let category_lower = lower c in
           case map_of valid_categories category_lower of
             None \<Rightarrow> Inl (ValueError (CategoryNotAllowed c))
           | Some v \<Rightarrow> Inr v)
      | _ \<Rightarrow> Inl AttributeError)"

subsection \<open>The builtins \<^verbatim>\<open>int()\<close> and \<^verbatim>\<open>str()\<close>\<close>

definition digit_val :: "char \<Rightarrow> nat option" where
  "digit_val c = map_of (zip ''0123456789'' [0, 1, 2, 3, 4, 5, 6, 7, 8, 9]) c"

text \<open>The digits after the first one; a single underscore may stand between two digits.\<close>

fun dec_digits :: "nat \<Rightarrow> string \<Rightarrow> nat option" where
  "dec_digits acc [] = Some acc"
| "dec_digits acc [c] =
     (case digit_val c of None \<Rightarrow> None | Some v \<Rightarrow> Some (10 * acc + v))"
| "dec_digits acc (c # d # ds) =
     (if c = CHR ''_'' then
        (case digit_val d of None \<Rightarrow> None | Some v \<Rightarrow> dec_digits (10 * acc + v) ds)
      else
        (case digit_val c of None \<Rightarrow> None | Some v \<Rightarrow> dec_digits (10 * acc + v) (d # ds)))"

definition parse_dec :: "string \<Rightarrow> nat option" where
  "parse_dec s =
     (case s of
        [] \<Rightarrow> None
      | c # cs \<Rightarrow> (case digit_val c of None \<Rightarrow> None | Some v \<Rightarrow> dec_digits v cs))"

text \<open>\<^verbatim>\<open>int(s)\<close> for a string: surrounding white space, an optional sign, decimal digits.
  The white space \<^verbatim>\<open>int\<close> skips is narrower than that of \<^verbatim>\<open>strip\<close>: the separators
  0x1C to 0x1F are not part of it.\<close>

definition int_isspace :: "char \<Rightarrow> bool" where
  "int_isspace c \<longleftrightarrow> c \<in> set [CHR 0x09, CHR 0x0A, CHR 0x0B, CHR 0x0C, CHR 0x0D, CHR 0x20,
                             CHR 0x85, CHR 0xA0]"

definition int_of_str :: "string \<Rightarrow> int option" where
  "int_of_str s =
     (case rev (dropWhile int_isspace (rev (dropWhile int_isspace s))) of
        [] \<Rightarrow> None
      | c # cs \<Rightarrow>
          if c = CHR ''-'' then map_option (\<lambda>n. - int n) (parse_dec cs)
          else if c = CHR ''+'' then map_option int (parse_dec cs)
          else map_option int (parse_dec (c # cs)))"

text \<open>\<^verbatim>\<open>int(x)\<close>: a float is truncated towards zero, NaN and the infinities raise; a numpy
  scalar converts to the integer it holds.\<close>

fun py_int :: "pyval \<Rightarrow> error + int" where
  "py_int (PInt i) = Inr i"
| "py_int (PBool b) = Inr (if b then 1 else 0)"
| "py_int (PFloat NaN) = Inl (ValueError FloatNaNToInt)"
| "py_int (PFloat PosInf) = Inl OverflowError"
| "py_int (PFloat NegInf) = Inl OverflowError"
| "py_int (PFloat (Finite r)) = Inr (if 0 \<le> r then \<lfloor>r\<rfloor> else \<lceil>r\<rceil>)"
| "py_int (PStr s) =
     (case int_of_str s of None \<Rightarrow> Inl (ValueError (InvalidIntLiteral s)) | Some i \<Rightarrow> Inr i)"
| "py_int PNone = Inl TypeError"
| "py_int (PNpInt i) = Inr i"
| "py_int (PNpBool b) = Inr (if b then 1 else 0)"

definition digit_char :: "nat \<Rightarrow> char" where
  "digit_char d = ''0123456789'' ! d"

fun str_nat :: "nat \<Rightarrow> string" where
  "str_nat n = (if n < 10 then [digit_char n] else str_nat (n div 10) @ [digit_char (n mod 10)])"

text \<open>\<^verbatim>\<open>str(i)\<close> for an integer\<close>

definition str_int :: "int \<Rightarrow> string" where
  "str_int i = (if i < 0 then CHR ''-'' # str_nat (nat (- i)) else str_nat (nat i))"

text \<open>\<^verbatim>\<open>str(v)\<close> and the formatting of \<^verbatim>\<open>v\<close> in an f-string. The shortest-round-trip
  printing of a finite float is not modelled: it is the parameter \<open>float_repr\<close> of every
  function that prints a cell.\<close>

fun py_str :: "(real \<Rightarrow> string) \<Rightarrow> pyval \<Rightarrow> string" where
  "py_str float_repr (PStr s) = s"
| "py_str float_repr (PInt i) = str_int i"
| "py_str float_repr (PBool b) = (if b then ''True'' else ''False'')"
| "py_str float_repr PNone = ''None''"
| "py_str float_repr (PFloat NaN) = ''nan''"
| "py_str float_repr (PFloat PosInf) = ''inf''"
| "py_str float_repr (PFloat NegInf) = ''-inf''"
| "py_str float_repr (PFloat (Finite r)) = float_repr r"
| "py_str float_repr (PNpInt i) = str_int i"
| "py_str float_repr (PNpBool b) = (if b then ''True'' else ''False'')"

section \<open>The rule normalizer\<close>

text \<open>The dictionary \<^verbatim>\<open>create_rule\<close> returns; both policy makers fill the same keys.
  A value copied from the row unconverted stays a cell; the key \<^verbatim>\<open>notes\<close> is the field \<open>notes'\<close>.\<close>

record rule =
  action :: pyval
  description :: string
  destination_groups :: "string list"
  destinations_excluded :: bool
  direction :: pyval
  disabled :: bool
  display_name :: string
  ip_version :: pyval
  log_label :: string
  logged :: bool
  notes' :: string
  sequence_number :: int
  services :: "string list"
  source_groups :: "string list"
  sources_excluded :: bool
  scope :: "string list"

text \<open>The nested helper \<^verbatim>\<open>process_groups(value)\<close> of \<^verbatim>\<open>create_rule\<close>, with the category
  of the enclosing call made a parameter.\<close>

definition pm_process_groups :: "string \<Rightarrow> pyval \<Rightarrow> string list" where
  "pm_process_groups category v =
     (if isna v \<or> py_eq v (PStr '''') \<or> py_eq v (PStr ''any'') \<or> \<not> isinstance_str v then []
      else (case v of
              PStr s \<Rightarrow> map (\<lambda>group. pm_construct_variable_reference ''group'' (strip group) (Some category))
                          (split s CHR '','')
            | _ \<Rightarrow> []))"

definition optum_process_groups :: "string \<Rightarrow> pyval \<Rightarrow> string list" where
  "optum_process_groups category v =
     (if isna v \<or> py_eq v (PStr '''') \<or> py_eq v (PStr ''any'') \<or> \<not> isinstance_str v then []
      else (case v of
              PStr s \<Rightarrow> map (\<lambda>group. optum_construct_variable_reference ''group'' (strip group) (Some category))
                          (split s CHR '','')
            | _ \<Rightarrow> []))"

text \<open>The two inline blocks of \<^verbatim>\<open>create_rule\<close> that fill \<^verbatim>\<open>services\<close> and \<^verbatim>\<open>scope\<close>; the
  key keeps its initial value \<^verbatim>\<open>[]\<close> when the test fails.\<close>

definition pm_services_of :: "pyval \<Rightarrow> string list" where
  "pm_services_of v =
     (if notna v \<and> isinstance_str v \<and> \<not> py_eq v (PStr '''') \<and> \<not> py_eq v (PStr ''any'') then
        (case v of
           PStr s \<Rightarrow> map (\<lambda>service. pm_construct_variable_reference ''service'' (strip service) None)
                       (split s CHR '','')
         | _ \<Rightarrow> [])
      else [])"

definition optum_services_of :: "pyval \<Rightarrow> string list" where
  "optum_services_of v =
     (if notna v \<and> isinstance_str v \<and> \<not> py_eq v (PStr '''') \<and> \<not> py_eq v (PStr ''any'') then
        (case v of
           PStr s \<Rightarrow> map (\<lambda>service. optum_construct_variable_reference ''service'' (strip service) None)
                       (split s CHR '','')
         | _ \<Rightarrow> [])
      else [])"

definition pm_scope_of :: "string \<Rightarrow> pyval \<Rightarrow> string list" where
  "pm_scope_of category v =
     (if notna v \<and> isinstance_str v \<and> \<not> py_eq v (PStr '''') \<and> \<not> py_eq v (PStr ''any'') then
        (case v of
           PStr s \<Rightarrow> map (\<lambda>group. pm_construct_variable_reference ''group'' (strip group) (Some category))
                       (split s CHR '','')
         | _ \<Rightarrow> [])
      else [])"

definition optum_scope_of :: "string \<Rightarrow> pyval \<Rightarrow> string list" where
  "optum_scope_of category v =
     (if notna v \<and> isinstance_str v \<and> \<not> py_eq v (PStr '''') \<and> \<not> py_eq v (PStr ''any'') then
        (case v of
           PStr s \<Rightarrow> map (\<lambda>group. optum_construct_variable_reference ''group'' (strip group) (Some category))
                       (split s CHR '','')
         | _ \<Rightarrow> [])
      else [])"

text \<open>
  \<^verbatim>\<open>create_rule(rule_row, category)\<close>. The debug log is the only state: the list of the
  messages appended to \<^verbatim>\<open>logs/debug.log\<close>, passed in and returned. The message is written
  before the dictionary is built; in the dictionary literal only \<^verbatim>\<open>int(...)\<close> can raise,
  and it is evaluated before the group lists are filled.
\<close>

definition pm_create_rule ::
  "(real \<Rightarrow> string) \<Rightarrow> row \<Rightarrow> string \<Rightarrow> string list \<Rightarrow> (error + rule) \<times> string list" where
  "pm_create_rule float_repr rule_row category log_file =
     (let log_file' = log_file @ [[CHR 0x0A] @ ''Processing rule: '' @ py_str float_repr (get rule_row ''display_name'' PNone) @ [CHR 0x0A]]
      in case py_int (get rule_row ''sequence_number'' (PInt 0)) of
           Inl e \<Rightarrow> (Inl e, log_file')
         | Inr n \<Rightarrow>
             (Inr \<lparr> action = get rule_row ''action'' (PStr ''ALLOW''),
                    description = '''',
                    destination_groups = pm_process_groups category (get rule_row ''destination_groups'' PNone),
                    destinations_excluded = convert_to_bool (get rule_row ''destinations_excluded (Negate)'' (PBool False)),
                    direction = get rule_row ''direction'' (PStr ''IN_OUT''),
                    disabled = convert_to_bool (get rule_row ''Rule Disabled'' (PBool False)),
                    display_name = py_str float_repr (get rule_row ''display_name'' (PStr '''')),
                    ip_version = get rule_row ''ip_version'' (PStr ''IPV4_IPV6''),
                    log_label = '''',
                    logged = convert_to_bool (get rule_row ''logged'' (PBool False)),
                    notes' = '''',
                    sequence_number = n,
                    services = pm_services_of (get rule_row ''services'' PNone),
                    source_groups = pm_process_groups category (get rule_row ''source_groups'' PNone),
                    sources_excluded = convert_to_bool (get rule_row ''sources_excluded (Negate)'' (PBool False)),
                    scope = pm_scope_of category (get rule_row ''scope (Applied To)'' PNone) \<rparr>,
              log_file'))"

definition optum_create_rule ::
  "(real \<Rightarrow> string) \<Rightarrow> row \<Rightarrow> string \<Rightarrow> string list \<Rightarrow> (error + rule) \<times> string list" where
  "optum_create_rule float_repr rule_row category log_file =
     (let log_file' = log_file @ [[CHR 0x0A] @ ''Processing rule: '' @ py_str float_repr (get rule_row ''rule_display_name'' PNone) @ [CHR 0x0A]]
      in case py_int (get rule_row ''sequence_number'' (PInt 0)) of
           Inl e \<Rightarrow> (Inl e, log_file')
         | Inr n \<Rightarrow>
             (Inr \<lparr> action = get rule_row ''action'' (PStr ''ALLOW''),
                    description = '''',
                    destination_groups = optum_process_groups category (get rule_row ''destination_groups'' PNone),
                    destinations_excluded = convert_to_bool (get rule_row ''destinations_excluded (Negate)'' (PBool False)),
                    direction = get rule_row ''direction'' (PStr ''IN_OUT''),
                    disabled = convert_to_bool (get rule_row ''Rule Disabled'' (PBool False)),
                    display_name = py_str float_repr (get rule_row ''rule_display_name'' (PStr '''')),
                    ip_version = get rule_row ''ip_version'' (PStr ''IPV4_IPV6''),
                    log_label = '''',
                    logged = convert_to_bool (get rule_row ''logged'' (PBool False)),
                    notes' = '''',
                    sequence_number = n,
                    services = optum_services_of (get rule_row ''services'' PNone),
                    source_groups = optum_process_groups category (get rule_row ''source_groups'' PNone),
                    sources_excluded = convert_to_bool (get rule_row ''sources_excluded (Negate)'' (PBool False)),
                    scope = optum_scope_of category (get rule_row ''scope (Applied To)'' PNone) \<rparr>,
              log_file'))"

text \<open>The list comprehension \<^verbatim>\<open>[create_rule(rule_row, validated_category) for rule_row in rules]\<close>:
  the rows in order, stopping at the first exception.\<close>

fun pm_create_rules ::
  "(real \<Rightarrow> string) \<Rightarrow> row list \<Rightarrow> string \<Rightarrow> string list \<Rightarrow> (error + rule list) \<times> string list" where
  "pm_create_rules float_repr [] category log_file = (Inr [], log_file)"
| "pm_create_rules float_repr (rule_row # rules) category log_file =
     (case pm_create_rule float_repr rule_row category log_file of
        (Inl e, log_file') \<Rightarrow> (Inl e, log_file')
      | (Inr r, log_file') \<Rightarrow>
          (case pm_create_rules float_repr rules category log_file' of
             (Inl e, log_file'') \<Rightarrow> (Inl e, log_file'')
           | (Inr rs, log_file'') \<Rightarrow> (Inr (r # rs), log_file'')))"

fun optum_create_rules ::
  "(real \<Rightarrow> string) \<Rightarrow> row list \<Rightarrow> string \<Rightarrow> string list \<Rightarrow> (error + rule list) \<times> string list" where
  "optum_create_rules float_repr [] category log_file = (Inr [], log_file)"
| "optum_create_rules float_repr (rule_row # rules) category log_file =
     (case optum_create_rule float_repr rule_row category log_file of
        (Inl e, log_file') \<Rightarrow> (Inl e, log_file')
      | (Inr r, log_file') \<Rightarrow>
          (case optum_create_rules float_repr rules category log_file' of
             (Inl e, log_file'') \<Rightarrow> (Inl e, log_file'')
           | (Inr rs, log_file'') \<Rightarrow> (Inr (r # rs), log_file'')))"

section \<open>Policy assembly\<close>

text \<open>The inner dictionary \<^verbatim>\<open>create_policy\<close> builds for one policy. \<open>policy_name\<close> is the key
  \<^verbatim>\<open>f"{policy_name}"\<close> under \<^verbatim>\<open>nsxt_policy_security_policy\<close>; the other fields are the keys
  of the dictionary, prefixed with \<open>p_\<close> to keep them apart from the fields of a rule.\<close>

record policy =
  policy_name :: string
  p_nsx_id :: string
  p_display_name :: pyval
  p_category :: string
  p_comments :: pyval
  p_description :: pyval
  p_domain :: pyval
  p_locked :: bool
  p_sequence_number :: pyval
  p_rule :: "rule list"

text \<open>\<^verbatim>\<open>create_policy(policy_row, rules)\<close> of \<^verbatim>\<open>policymaker.py\<close> (single-policy mode).\<close>

definition pm_create_policy ::
  "(real \<Rightarrow> string) \<Rightarrow> row \<Rightarrow> row list \<Rightarrow> string list \<Rightarrow> (error + policy) \<times> string list" where
  "pm_create_policy float_repr policy_row rules log_file =
     (let policy_name = get policy_row ''Terraform Policy File''
                          (get policy_row ''Application'' (PStr ''default-policy''));
          raw_category = get policy_row ''category'' (PStr ''Infrastructure'')
      in case validate_category raw_category of
           Inl e \<Rightarrow> (Inl e, log_file)
         | Inr validated_category \<Rightarrow>
             (case pm_create_rules float_repr rules validated_category log_file of
                (Inl e, log_file') \<Rightarrow> (Inl e, log_file')
              | (Inr rules_with_category, log_file') \<Rightarrow>
                  (let sequence_number = get policy_row ''sequence_number'' (PInt 0);
                       sequence_number' = (if py_eq sequence_number (PInt 0) then PStr '''' else sequence_number)
                   in (Inr \<lparr> policy_name = py_str float_repr policy_name,
                              p_nsx_id = '''',
                              p_display_name = policy_name,
                              p_category = validated_category,
                              p_comments = (if isna (get policy_row ''comments'' PNone) then PStr ''''
                                            else get policy_row ''comments'' PNone),
                              p_description = (if isna (get policy_row ''description'' PNone) then PStr ''''
                                               else get policy_row ''description'' PNone),
                              p_domain = get policy_row ''domain'' (PStr ''default''),
                              p_locked = convert_to_bool (get policy_row ''locked'' (PBool False)),
                              p_sequence_number = sequence_number',
                              p_rule = rules_with_category \<rparr>,
                       log_file'))))"

subsection \<open>Sequence numbers in batch mode\<close>

text \<open>The set \<^verbatim>\<open>existing_sequences\<close> holds the decimal strings \<^verbatim>\<open>str(n)\<close> of the numbers in
  use. The search for a free number ends because the set is finite and \<^verbatim>\<open>str\<close> is injective
  on integers.\<close>

lemma digit_char_inj: "a < 10 \<Longrightarrow> b < 10 \<Longrightarrow> digit_char a = digit_char b \<Longrightarrow> a = b"
  unfolding digit_char_def
  by (auto simp: less_Suc_eq numeral_eq_Suc nth_Cons')

lemma digit_char_not_minus: "d < 10 \<Longrightarrow> digit_char d \<noteq> CHR ''-''"
  unfolding digit_char_def
  by (auto simp: less_Suc_eq numeral_eq_Suc nth_Cons')

lemma str_nat_not_Nil: "str_nat n \<noteq> []"
  by (induction n rule: str_nat.induct) (subst str_nat.simps, simp)

lemma str_nat_inj: "str_nat m = str_nat n \<Longrightarrow> m = n"
proof (induction m arbitrary: n rule: str_nat.induct)
  case (1 m)
  show ?case
  proof (cases "m < 10")
    case True
    note m = this
    show ?thesis
    proof (cases "n < 10")
      case True
      with m "1.prems" show ?thesis
        by (subst (asm) str_nat.simps, subst (asm) (2) str_nat.simps) (simp add: digit_char_inj)
    next
      case False
      with m "1.prems" str_nat_not_Nil [of "n div 10"] show ?thesis
        by (subst (asm) str_nat.simps, subst (asm) (2) str_nat.simps) simp
    qed
  next
    case False
    note m = this
    show ?thesis
    proof (cases "n < 10")
      case True
      with m "1.prems" str_nat_not_Nil [of "m div 10"] show ?thesis
        by (subst (asm) str_nat.simps, subst (asm) (2) str_nat.simps) simp
    next
      case False
      from m False "1.prems"
      have eq: "str_nat (m div 10) @ [digit_char (m mod 10)] = str_nat (n div 10) @ [digit_char (n mod 10)]"
        by (subst (asm) str_nat.simps, subst (asm) (2) str_nat.simps) simp
      then have a: "str_nat (m div 10) = str_nat (n div 10)"
        and b: "digit_char (m mod 10) = digit_char (n mod 10)"
        by simp_all
      from "1.IH" [OF m a] have "m div 10 = n div 10" .
      moreover from b have "m mod 10 = n mod 10" by (intro digit_char_inj) simp_all
      ultimately show ?thesis by (metis div_mult_mod_eq)
    qed
  qed
qed

lemma hd_str_nat_not_minus: "hd (str_nat n) \<noteq> CHR ''-''"
proof (induction n rule: str_nat.induct)
  case (1 n)
  show ?case
  proof (cases "n < 10")
    case True
    then show ?thesis by (subst str_nat.simps) (simp add: digit_char_not_minus)
  next
    case False
    with "1.IH" str_nat_not_Nil [of "n div 10"] show ?thesis
      by (subst str_nat.simps) simp
  qed
qed

lemma str_int_inj: "str_int i = str_int j \<Longrightarrow> i = j"
proof -
  assume eq: "str_int i = str_int j"
  have neg: "CHR ''-'' # str_nat a \<noteq> str_nat b" for a b
    using hd_str_nat_not_minus [of b] by (metis list.sel(1))
  show ?thesis
  proof (cases "i < 0"; cases "j < 0")
    assume "i < 0" "j < 0"
    with eq have "nat (- i) = nat (- j)" by (simp add: str_int_def str_nat_inj del: str_nat.simps)
    with \<open>i < 0\<close> \<open>j < 0\<close> show ?thesis by simp
  next
    assume "i < 0" "\<not> j < 0"
    with eq neg show ?thesis by (simp add: str_int_def del: str_nat.simps)
  next
    assume "\<not> i < 0" "j < 0"
    with eq neg [of "nat (-j)" "nat i"] show ?thesis by (simp add: str_int_def del: str_nat.simps)
  next
    assume "\<not> i < 0" "\<not> j < 0"
    with eq have "nat i = nat j" by (auto simp add: str_int_def simp del: str_nat.simps dest: str_nat_inj)
    with \<open>\<not> i < 0\<close> \<open>\<not> j < 0\<close> show ?thesis by simp
  qed
qed

lemma finite_str_int_vimage: "finite {k. str_int k |\<in>| ex}"
proof -
  have "finite (str_int -` fset ex)"
    by (rule finite_vimageI) (simp_all add: injI str_int_inj)
  then show ?thesis by (simp add: vimage_def)
qed

text \<open>\<^verbatim>\<open>while str(sequence_number) in existing_sequences: sequence_number += 1\<close>\<close>

function next_free :: "int \<Rightarrow> string fset \<Rightarrow> int" where
  "next_free n ex = (if str_int n |\<in>| ex then next_free (n + 1) ex else n)"
  by pat_completeness auto
termination
proof (relation "measure (\<lambda>(n, ex). card {k. n \<le> k \<and> str_int k |\<in>| ex})")
  show "wf (measure (\<lambda>(n, ex). card {k. n \<le> k \<and> str_int k |\<in>| ex}))" by simp
next
  fix n :: int and ex :: "string fset"
  assume mem: "str_int n |\<in>| ex"
  have fin: "finite {k. n \<le> k \<and> str_int k |\<in>| ex}"
    by (rule finite_subset [OF _ finite_str_int_vimage [of ex]]) auto
  have "n \<in> {k. n \<le> k \<and> str_int k |\<in>| ex}" "n \<notin> {k. n + 1 \<le> k \<and> str_int k |\<in>| ex}"
    using mem by simp_all
  moreover have "{k. n + 1 \<le> k \<and> str_int k |\<in>| ex} \<subseteq> {k. n \<le> k \<and> str_int k |\<in>| ex}"
    by auto
  ultimately have "{k. n + 1 \<le> k \<and> str_int k |\<in>| ex} \<subset> {k. n \<le> k \<and> str_int k |\<in>| ex}"
    by blast
  then have "card {k. n + 1 \<le> k \<and> str_int k |\<in>| ex} < card {k. n \<le> k \<and> str_int k |\<in>| ex}"
    by (rule psubset_card_mono [OF fin])
  then show "((n + 1, ex), (n, ex)) \<in> measure (\<lambda>(n, ex). card {k. n \<le> k \<and> str_int k |\<in>| ex})"
    by simp
qed

declare next_free.simps [simp del]

text \<open>\<^verbatim>\<open>isinstance(v, (int, float))\<close>: \<^verbatim>\<open>bool\<close> is a subclass of \<^verbatim>\<open>int\<close>; \<^verbatim>\<open>numpy.int64\<close> and
  \<^verbatim>\<open>numpy.bool_\<close> are subclasses of neither \<^verbatim>\<open>int\<close> nor \<^verbatim>\<open>float\<close>.\<close>

fun isinstance_int_float :: "pyval \<Rightarrow> bool" where
  "isinstance_int_float (PBool b) = True"
| "isinstance_int_float (PInt i) = True"
| "isinstance_int_float (PFloat f) = True"
| "isinstance_int_float _ = False"

text \<open>The block \<^verbatim>\<open># Handle sequence_number\<close> of \<^verbatim>\<open>create_policy\<close> in
  \<^verbatim>\<open>optum_policy_maker.py\<close>: the new value of \<^verbatim>\<open>sequence_number\<close> and of the set.\<close>

definition handle_sequence_number :: "pyval \<Rightarrow> string fset \<Rightarrow> error + pyval \<times> string fset" where
  "handle_sequence_number seq_number existing_sequences =
     (if isinstance_int_float seq_number then
        (case py_int seq_number of
           Inl e \<Rightarrow> Inl e
         | Inr n \<Rightarrow>
             (let n' = next_free n existing_sequences
              in Inr (PInt n', finsert (str_int n') existing_sequences)))
      else Inr (seq_number, existing_sequences))"

text \<open>\<^verbatim>\<open>create_policy(policy_row, rules, existing_sequences)\<close> of \<^verbatim>\<open>optum_policy_maker.py\<close>.
  The state is the shared set and the debug log.\<close>

definition optum_create_policy ::
  "(real \<Rightarrow> string) \<Rightarrow> row \<Rightarrow> row list \<Rightarrow> string fset \<Rightarrow> string list
     \<Rightarrow> (error + policy) \<times> string fset \<times> string list" where
  "optum_create_policy float_repr policy_row rules existing_sequences log_file =
     (let policy_name = get policy_row ''policy_display_name''
                          (get policy_row ''Application'' (PStr ''default-policy''));
          raw_category = get policy_row ''category'' (PStr ''Infrastructure'')
      in case validate_category raw_category of
           Inl e \<Rightarrow> (Inl e, existing_sequences, log_file)
         | Inr validated_category \<Rightarrow>
             (case handle_sequence_number (get policy_row ''sequence_number'' (PInt 0)) existing_sequences of
                Inl e \<Rightarrow> (Inl e, existing_sequences, log_file)
              | Inr (seq_number, existing_sequences') \<Rightarrow>
                  (case optum_create_rules float_repr rules validated_category log_file of
                     (Inl e, log_file') \<Rightarrow> (Inl e, existing_sequences', log_file')
                   | (Inr rules_with_category, log_file') \<Rightarrow>
                       (Inr \<lparr> policy_name = py_str float_repr policy_name,
                              p_nsx_id = '''',
                              p_display_name = policy_name,
                              p_category = validated_category,
                              p_comments = (if isna (get policy_row ''comments'' PNone) then PStr ''''
                                            else PStr (py_str float_repr (get policy_row ''comments'' PNone))),
                              p_description = (if isna (get policy_row ''description'' PNone) then PStr ''''
                                               else PStr (py_str float_repr (get policy_row ''description'' PNone))),
                              p_domain = get policy_row ''domain'' (PStr ''default''),
                              p_locked = convert_to_bool (get policy_row ''locked'' (PBool False)),
                              p_sequence_number = PStr (py_str float_repr seq_number),
                              p_rule = rules_with_category \<rparr>,
                        existing_sequences', log_file'))))"

text \<open>The loop of \<^verbatim>\<open>main\<close> in \<^verbatim>\<open>optum_policy_maker.py\<close> over the (header row, rule rows) pairs
  of the tabs, every call sharing the one set: the policies produced in order, the final
  state, and the exception that ended the run, if any.\<close>

fun main_policies ::
  "(real \<Rightarrow> string) \<Rightarrow> (row \<times> row list) list \<Rightarrow> string fset \<Rightarrow> string list
     \<Rightarrow> policy list \<times> string fset \<times> string list \<times> error option" where
  "main_policies float_repr [] existing_sequences log_file = ([], existing_sequences, log_file, None)"
| "main_policies float_repr ((policy_row, rules) # pairs) existing_sequences log_file =
     (case optum_create_policy float_repr policy_row rules existing_sequences log_file of
        (Inl e, existing_sequences', log_file') \<Rightarrow> ([], existing_sequences', log_file', Some e)
      | (Inr policy, existing_sequences', log_file') \<Rightarrow>
          (case main_policies float_repr pairs existing_sequences' log_file' of
             (policies, st) \<Rightarrow> (policy # policies, st)))"

text \<open>\<^verbatim>\<open>main\<close> starts from \<^verbatim>\<open>existing_sequences = set()\<close>.\<close>

definition optum_main ::
  "(real \<Rightarrow> string) \<Rightarrow> (row \<times> row list) list \<Rightarrow> string list
     \<Rightarrow> policy list \<times> string fset \<times> string list \<times> error option" where
  "optum_main float_repr policy_rules_pairs log_file = main_policies float_repr policy_rules_pairs {||} log_file"

section \<open>The IP-set maker\<close>

text \<open>\<^verbatim>\<open>clean_ip_addresses(csv_str)\<close>; a cell that is neither empty nor a string has no
  \<^verbatim>\<open>split\<close> method.\<close>

definition clean_ip_addresses :: "pyval \<Rightarrow> error + string list" where
  "clean_ip_addresses csv_str =
     (if isna csv_str then Inr []
      else (case csv_str of
              PStr s \<Rightarrow> (let ips = map strip (split s CHR '','') in Inr (filter (\<lambda>ip. ip \<noteq> []) ips))
            | _ \<Rightarrow> Inl AttributeError))"



text \<open>\<^verbatim>\<open>json.dumps\<close> on a list of strings, with its default settings: the items are
  separated by a comma and a space, and a string is written between double quotes with
  the quote, the backslash and every character outside the printable ASCII range
  escaped.\<close>

definition hex_char :: "nat \<Rightarrow> char" where
  "hex_char d = ''0123456789abcdef'' ! d"

definition json_escape_char :: "char \<Rightarrow> string" where
  "json_escape_char c =
     (if c = CHR 0x5C then [CHR 0x5C, CHR 0x5C]
      else if c = CHR 0x22 then [CHR 0x5C, CHR 0x22]
      else if c = CHR 0x08 then [CHR 0x5C, CHR ''b'']
      else if c = CHR 0x0C then [CHR 0x5C, CHR ''f'']
      else if c = CHR 0x0A then [CHR 0x5C, CHR ''n'']
      else if c = CHR 0x0D then [CHR 0x5C, CHR ''r'']
      else if c = CHR 0x09 then [CHR 0x5C, CHR ''t'']
      else if 32 \<le> (of_char c :: nat) \<and> (of_char c :: nat) \<le> 126 then [c]
      else [CHR 0x5C, CHR ''u'', CHR ''0'', CHR ''0'',
            hex_char ((of_char c :: nat) div 16), hex_char ((of_char c :: nat) mod 16)])"

definition json_dumps_str :: "string \<Rightarrow> string" where
  "json_dumps_str s = [CHR 0x22] @ concat (map json_escape_char s) @ [CHR 0x22]"

definition json_dumps :: "string list \<Rightarrow> string" where
  "json_dumps xs = ''['' @ join '', '' (map json_dumps_str xs) @ '']''"

text \<open>\<^verbatim>\<open>groups_data\<close> is a dictionary in insertion order whose keys are cells: a list of
  pairs without equal keys. \<^verbatim>\<open>groups_data[k] = v\<close> replaces the value of an equal key
  where it stands, or adds the pair at the end.\<close>

type_synonym groups = "(pyval \<times> string list) list"

fun dict_set :: "groups \<Rightarrow> pyval \<Rightarrow> string list \<Rightarrow> groups" where
  "dict_set [] k v = [(k, v)]"
| "dict_set ((k', v') # d) k v =
     (if py_eq k' k then (k', v) # d else (k', v') # dict_set d k v)"




text \<open>The loop of \<^verbatim>\<open>convert_xlsx_to_hcl\<close> over the rows of the sheet. \<^verbatim>\<open>row['group_name']\<close>
  raises \<^verbatim>\<open>KeyError\<close> when the sheet has no such column.\<close>

fun collect_groups :: "row list \<Rightarrow> groups \<Rightarrow> error + groups" where
  "collect_groups [] groups_data = Inr groups_data"
| "collect_groups (r # rows) groups_data =
     (case r ''group_name'' of
        None \<Rightarrow> Inl (KeyError ''group_name'')
      | Some group_name \<Rightarrow>
          if isna group_name then collect_groups rows groups_data
          else (case r ''csv'' of
                  None \<Rightarrow> Inl (KeyError ''csv'')
                | Some csv \<Rightarrow>
                    (case clean_ip_addresses csv of
                       Inl e \<Rightarrow> Inl e
                     | Inr ip_addresses \<Rightarrow>
                         if ip_addresses \<noteq> []
                         then collect_groups rows (dict_set groups_data group_name ip_addresses)
                         else collect_groups rows groups_data)))"


section \<open>Writing the policy document\<close>

text \<open>What \<^verbatim>\<open>json.dump(policy, f, indent=2)\<close> does in \<^verbatim>\<open>main\<close> of \<^verbatim>\<open>policymaker.py\<close>. The
  encoder walks the dictionary in insertion order and knows \<^verbatim>\<open>str\<close>, \<^verbatim>\<open>None\<close>, \<^verbatim>\<open>bool\<close>,
  \<^verbatim>\<open>int\<close>, \<^verbatim>\<open>float\<close>, lists and dictionaries; for any other object, a numpy scalar among
  them, it raises \<^verbatim>\<open>TypeError\<close>. \<open>json\<close> is the tree of the values it can write; a number
  is kept as the text the encoder writes for it.\<close>

datatype json = JNull | JBool bool | JNumber string | JString string
  | JArray "json list" | JObject "(string \<times> json) list"

fun json_of_cell :: "(real \<Rightarrow> string) \<Rightarrow> pyval \<Rightarrow> error + json" where
  "json_of_cell float_repr (PStr s) = Inr (JString s)"
| "json_of_cell float_repr PNone = Inr JNull"
| "json_of_cell float_repr (PBool b) = Inr (JBool b)"
| "json_of_cell float_repr (PInt i) = Inr (JNumber (str_int i))"
| "json_of_cell float_repr (PFloat NaN) = Inr (JNumber ''NaN'')"
| "json_of_cell float_repr (PFloat PosInf) = Inr (JNumber ''Infinity'')"
| "json_of_cell float_repr (PFloat NegInf) = Inr (JNumber ''-Infinity'')"
| "json_of_cell float_repr (PFloat (Finite r)) = Inr (JNumber (float_repr r))"
| "json_of_cell float_repr (PNpInt i) = Inl TypeError"
| "json_of_cell float_repr (PNpBool b) = Inl TypeError"

text \<open>The values of a dictionary or of a list in order, up to the first one that cannot be
  written.\<close>

fun json_members :: "(string \<times> (error + json)) list \<Rightarrow> error + (string \<times> json) list" where
  "json_members [] = Inr []"
| "json_members ((key, Inl e) # items) = Inl e"
| "json_members ((key, Inr j) # items) =
     (case json_members items of Inl e \<Rightarrow> Inl e | Inr ms \<Rightarrow> Inr ((key, j) # ms))"

fun json_elements :: "(error + json) list \<Rightarrow> error + json list" where
  "json_elements [] = Inr []"
| "json_elements (Inl e # items) = Inl e"
| "json_elements (Inr j # items) =
     (case json_elements items of Inl e \<Rightarrow> Inl e | Inr js \<Rightarrow> Inr (j # js))"

text \<open>The text written with \<^verbatim>\<open>indent=2\<close>: every item of a non-empty list or dictionary on a
  line of its own, two more spaces per level, \<^verbatim>\<open>,\<close> between items and \<^verbatim>\<open>: \<close> after a key.\<close>

definition newline_indent :: "nat \<Rightarrow> string" where
  "newline_indent level = CHR 0x0A # replicate (2 * level) CHR '' ''"

fun json_encode :: "nat \<Rightarrow> json \<Rightarrow> string" where
  "json_encode level JNull = ''null''"
| "json_encode level (JBool b) = (if b then ''true'' else ''false'')"
| "json_encode level (JNumber n) = n"
| "json_encode level (JString s) = json_dumps_str s"
| "json_encode level (JArray []) = ''[]''"
| "json_encode level (JArray (x # xs)) =
     ''['' @ newline_indent (Suc level)
     @ join ('','' @ newline_indent (Suc level)) (map (json_encode (Suc level)) (x # xs))
     @ newline_indent level @ '']''"
| "json_encode level (JObject []) = ''{}''"
| "json_encode level (JObject (m # ms)) =
     ''{'' @ newline_indent (Suc level)
     @ join ('','' @ newline_indent (Suc level))
         (map (\<lambda>member. json_dumps_str (fst member) @ '': '' @ json_encode (Suc level) (snd member)) (m # ms))
     @ newline_indent level @ ''}''"

text \<open>The dictionary \<^verbatim>\<open>create_rule\<close> of \<^verbatim>\<open>policymaker.py\<close> returns, key by key in the order
  of the dictionary literal.\<close>

definition pm_rule_json :: "(real \<Rightarrow> string) \<Rightarrow> rule \<Rightarrow> error + json" where
  "pm_rule_json float_repr r =
     (case json_members
        [(''action'', json_of_cell float_repr (action r)),
         (''description'', Inr (JString (description r))),
         (''destination_groups'', Inr (JArray (map JString (destination_groups r)))),
         (''destinations_excluded'', Inr (JBool (destinations_excluded r))),
         (''direction'', json_of_cell float_repr (direction r)),
         (''disabled'', Inr (JBool (disabled r))),
         (''display_name'', Inr (JString (display_name r))),
         (''ip_version'', json_of_cell float_repr (ip_version r)),
         (''log_label'', Inr (JString (log_label r))),
         (''logged'', Inr (JBool (logged r))),
         (''notes'', Inr (JString (notes' r))),
         (''sequence_number'', Inr (JNumber (str_int (sequence_number r)))),
         (''services'', Inr (JArray (map JString (services r)))),
         (''source_groups'', Inr (JArray (map JString (source_groups r)))),
         (''sources_excluded'', Inr (JBool (sources_excluded r))),
         (''scope'', Inr (JArray (map JString (scope r))))] of
        Inl e \<Rightarrow> Inl e
      | Inr members \<Rightarrow> Inr (JObject members))"

text \<open>The dictionary \<^verbatim>\<open>create_policy\<close> of \<^verbatim>\<open>policymaker.py\<close> returns, with its envelope.\<close>

definition pm_policy_json :: "(real \<Rightarrow> string) \<Rightarrow> policy \<Rightarrow> error + json" where
  "pm_policy_json float_repr p =
     (case json_members
        [(''nsx_id'', Inr (JString (p_nsx_id p))),
         (''display_name'', json_of_cell float_repr (p_display_name p)),
         (''category'', Inr (JString (p_category p))),
         (''comments'', json_of_cell float_repr (p_comments p)),
         (''description'', json_of_cell float_repr (p_description p)),
         (''domain'', json_of_cell float_repr (p_domain p)),
         (''locked'', Inr (JBool (p_locked p))),
         (''sequence_number'', json_of_cell float_repr (p_sequence_number p)),
         (''rule'', (case json_elements (map (pm_rule_json float_repr) (p_rule p)) of
                       Inl e \<Rightarrow> Inl e
                     | Inr rules \<Rightarrow> Inr (JArray rules)))] of
        Inl e \<Rightarrow> Inl e
      | Inr members \<Rightarrow>
          Inr (JObject
                [(''resource'',
                  JArray [JObject [(''nsxt_policy_security_policy'',
                                    JObject [(policy_name p, JObject members)])]])]))"

text \<open>The \<^verbatim>\<open>try\<close> block of \<^verbatim>\<open>main\<close> in \<^verbatim>\<open>policymaker.py\<close> from the rows read to the text of the
  output file, the overwrite being confirmed. An exception is caught by \<^verbatim>\<open>main\<close>, which
  prints it and exits with status 1; the output file, already opened for writing, is then
  left without a complete document.\<close>

definition pm_main ::
  "(real \<Rightarrow> string) \<Rightarrow> row \<Rightarrow> row list \<Rightarrow> string list \<Rightarrow> (error + string) \<times> string list" where
  "pm_main float_repr policy_row rules log_file =
     (case pm_create_policy float_repr policy_row rules log_file of
        (Inl e, log_file') \<Rightarrow> (Inl e, log_file')
      | (Inr policy, log_file') \<Rightarrow>
          (case pm_policy_json float_repr policy of
             Inl e \<Rightarrow> (Inl e, log_file')
           | Inr document \<Rightarrow> (Inr (json_encode 0 document), log_file')))"

section \<open>Notions used to state the properties\<close>

text \<open>The normalisation of a list-valued rule field, in words: a column that does not
  exist, a cell that is not a string (an empty cell among them), the empty string and the
  text \<^verbatim>\<open>any\<close> give the empty list; any other string is split on the comma and every
  piece, trimmed, goes through the resolver as a group of the rule's category.\<close>

definition group_references ::
  "(string \<Rightarrow> string \<Rightarrow> string option \<Rightarrow> string) \<Rightarrow> string \<Rightarrow> pyval option \<Rightarrow> string list" where
  "group_references resolve category cell =
     (case cell of
        Some (PStr s) \<Rightarrow>
          if s = '''' \<or> s = ''any'' then []
          else map (\<lambda>element. resolve ''group'' (strip element) (Some category)) (split s CHR '','')
      | _ \<Rightarrow> [])"

text \<open>A rule row used as a concrete input, with the column names of both policy makers.\<close>

definition example_rule_row :: row where
  "example_rule_row =
     [''display_name'' \<mapsto> PStr ''allow-web'', ''rule_display_name'' \<mapsto> PStr ''allow-web'',
      ''source_groups'' \<mapsto> PStr ''A, B,C'', ''destination_groups'' \<mapsto> PStr ''any'',
      ''services'' \<mapsto> PStr ''HTTPS_path'', ''action'' \<mapsto> PStr ''ALLOW'']"

text \<open>The spec's \<^verbatim>\<open>ValidationError\<close>: the \<^verbatim>\<open>ValueError\<close> that \<^verbatim>\<open>validate_category\<close> raises.\<close>

fun is_category_error :: "error \<Rightarrow> bool" where
  "is_category_error (ValueError (CategoryNotAllowed c)) = True"
| "is_category_error _ = False"

text \<open>A header row with a category outside the enumeration, with the name columns of both
  policy makers.\<close>

definition example_header :: row where
  "example_header = [''category'' \<mapsto> PStr ''Foo'', ''policy_display_name'' \<mapsto> PStr ''App1-Web'',
                     ''Terraform Policy File'' \<mapsto> PStr ''App1-Web'']"

text \<open>A header row that asks for the sequence number 5.\<close>

definition example_header_5 :: row where
  "example_header_5 = [''policy_display_name'' \<mapsto> PStr ''App1-Web'', ''sequence_number'' \<mapsto> PInt 5]"

text \<open>Equality of two strings up to the case of their letters.\<close>

definition equal_ignoring_case :: "string \<Rightarrow> string \<Rightarrow> bool" where
  "equal_ignoring_case s t \<longleftrightarrow> lower s = lower t"

text \<open>A boolean field read from a row: false when the column is absent, the coercion of the
  cell otherwise.\<close>

definition boolean_field :: "pyval option \<Rightarrow> bool" where
  "boolean_field cell = (case cell of None \<Rightarrow> False | Some v \<Rightarrow> convert_to_bool v)"

text \<open>A rule row with flags and a float sequence number, and header rows with valid
  categories.\<close>

definition example_flags_row :: row where
  "example_flags_row =
     [''display_name'' \<mapsto> PStr ''deny-db'', ''rule_display_name'' \<mapsto> PStr ''deny-db'',
      ''Rule Disabled'' \<mapsto> PStr ''true'', ''logged'' \<mapsto> PInt 1,
      ''sources_excluded (Negate)'' \<mapsto> PStr ''false'', ''sequence_number'' \<mapsto> PFloat (Finite 20)]"

definition example_locked_header :: row where
  "example_locked_header =
     [''category'' \<mapsto> PStr ''application'', ''policy_display_name'' \<mapsto> PStr ''App1-DB'',
      ''Terraform Policy File'' \<mapsto> PStr ''App1-DB'', ''locked'' \<mapsto> PBool True,
      ''sequence_number'' \<mapsto> PInt 7]"

definition example_plain_header :: row where
  "example_plain_header =
     [''category'' \<mapsto> PStr ''infrastructure'', ''policy_display_name'' \<mapsto> PStr ''App1-Web'',
      ''Terraform Policy File'' \<mapsto> PStr ''App1-Web'']"

text \<open>The cells that \<^verbatim>\<open>int()\<close> accepts.\<close>

fun int_convertible :: "pyval \<Rightarrow> bool" where
  "int_convertible (PInt i) = True"
| "int_convertible (PBool b) = True"
| "int_convertible (PFloat (Finite r)) = True"
| "int_convertible (PFloat f) = False"
| "int_convertible (PStr s) = (int_of_str s \<noteq> None)"
| "int_convertible PNone = False"
| "int_convertible (PNpInt i) = True"
| "int_convertible (PNpBool b) = True"

text \<open>A csv cell without any address: an empty cell, or a string all of whose
  comma-separated pieces are empty once trimmed.\<close>

definition no_address :: "pyval \<Rightarrow> bool" where
  "no_address csv =
     (case csv of
        PStr s \<Rightarrow> list_all (\<lambda>element. strip element = []) (split s CHR '','')
      | _ \<Rightarrow> isna csv)"

text \<open>Rows of an IP-set sheet: one without a group name, one without addresses, and the group
  \<^verbatim>\<open>DB Servers\<close> with a trailing comma in its list.\<close>

definition example_ipset_rows :: "row list" where
  "example_ipset_rows =
     [[''group_name'' \<mapsto> PFloat NaN, ''csv'' \<mapsto> PStr ''192.168.0.1''],
      [''group_name'' \<mapsto> PStr ''Empty'', ''csv'' \<mapsto> PStr '' , ,''],
      [''group_name'' \<mapsto> PStr ''DB Servers'', ''csv'' \<mapsto> PStr ''10.0.0.1, 10.0.0.2,'']]"








text \<open>The header rows of two tabs of one workbook, as \<^verbatim>\<open>policy_df.iloc[0]\<close> hands them out:
  both ask for the sequence number 5, an integer cell.\<close>

definition example_tab_1 :: row where
  "example_tab_1 = [''category'' \<mapsto> PStr ''Application'', ''policy_display_name'' \<mapsto> PStr ''App1-Web'',
                    ''sequence_number'' \<mapsto> PNpInt 5]"

definition example_tab_2 :: row where
  "example_tab_2 = [''category'' \<mapsto> PStr ''Application'', ''policy_display_name'' \<mapsto> PStr ''App1-DB'',
                    ''sequence_number'' \<mapsto> PNpInt 5]"

section \<open>Properties of the reference resolver\<close>

text \<open>
  C1 (amended). For a service name \<open>n\<close> that neither starts with \<^verbatim>\<open>SVCG_\<close> nor ends with
  \<^verbatim>\<open>_path\<close>, the resolver called with \<^verbatim>\<open>"service"\<close> gives a result fixed by \<open>n\<close> alone,
  whatever the category argument; the two policy makers differ in what it is:
  \<^verbatim>\<open>optum_policy_maker.py\<close> composes the default service path from the base-path variable
  and \<open>n\<close>, \<^verbatim>\<open>policymaker.py\<close> returns the bare name \<open>n\<close>.
\<close>

theorem service_default_reference:
  "\<not> startswith n ''SVCG_'' \<Longrightarrow> \<not> endswith n ''_path'' \<Longrightarrow>
     optum_construct_variable_reference ''service'' n category = ''${var.services_base_path}/'' @ n
     \<and> pm_construct_variable_reference ''service'' n category = n"
  by (simp add: optum_construct_variable_reference_def pm_construct_variable_reference_def)

theorem service_default_reference_witness:
  "\<not> startswith ''HTTPS'' ''SVCG_'' \<and> \<not> endswith ''HTTPS'' ''_path''
   \<and> optum_construct_variable_reference ''service'' ''HTTPS'' (Some ''Infrastructure'') = ''${var.services_base_path}/HTTPS''
   \<and> pm_construct_variable_reference ''service'' ''HTTPS'' (Some ''Infrastructure'') = ''HTTPS''"
proof -
  have h1: "\<not> startswith ''HTTPS'' ''SVCG_''" by (simp add: startswith_def)
  have h2: "\<not> endswith ''HTTPS'' ''_path''" by (simp add: endswith_def)
  from service_default_reference [OF h1 h2, of "Some ''Infrastructure''"] h1 h2
  show ?thesis by simp
qed

text \<open>
  C1 as stated fails: in \<^verbatim>\<open>policymaker.py\<close> the name \<^verbatim>\<open>HTTPS\<close>, which has neither the
  prefix nor the suffix, comes back as the bare name, and the two policy makers disagree
  on it.
\<close>

theorem service_default_reference_counterexample:
  "\<not> startswith ''HTTPS'' ''SVCG_'' \<and> \<not> endswith ''HTTPS'' ''_path''
   \<and> pm_construct_variable_reference ''service'' ''HTTPS'' None = ''HTTPS''
   \<and> pm_construct_variable_reference ''service'' ''HTTPS'' None
       \<noteq> optum_construct_variable_reference ''service'' ''HTTPS'' None"
  by (simp add: startswith_def endswith_def
      pm_construct_variable_reference_def optum_construct_variable_reference_def)

text \<open>
  C5 (amended). For every group name \<open>n\<close>: with the category Infrastructure or Environment
  both policy makers key the \<^verbatim>\<open>infra_groups_path\<close> or \<^verbatim>\<open>env_groups_path\<close> namespace by \<open>n\<close>
  followed by \<^verbatim>\<open>_path\<close>. With the category Application, \<^verbatim>\<open>policymaker.py\<close> keys the
  \<^verbatim>\<open>app_groups_path\<close> namespace by \<open>n\<close> followed by \<^verbatim>\<open>_path\<close> as well, and
  \<^verbatim>\<open>optum_policy_maker.py\<close> appends \<open>n\<close> alone to the \<^verbatim>\<open>groups_base_path\<close> variable.
\<close>

theorem group_reference_keys:
  "pm_construct_variable_reference ''group'' n (Some ''Infrastructure'') = ''${var.infra_groups_path.'' @ n @ ''_path}''
   \<and> optum_construct_variable_reference ''group'' n (Some ''Infrastructure'') = ''${var.infra_groups_path.'' @ n @ ''_path}''
   \<and> pm_construct_variable_reference ''group'' n (Some ''Environment'') = ''${var.env_groups_path.'' @ n @ ''_path}''
   \<and> optum_construct_variable_reference ''group'' n (Some ''Environment'') = ''${var.env_groups_path.'' @ n @ ''_path}''
   \<and> pm_construct_variable_reference ''group'' n (Some ''Application'') = ''${var.app_groups_path.'' @ n @ ''_path}''
   \<and> optum_construct_variable_reference ''group'' n (Some ''Application'') = ''${var.groups_base_path}/'' @ n"
  by (simp add: pm_construct_variable_reference_def optum_construct_variable_reference_def
      truthy_category_def)

theorem group_reference_keys_witness:
  "pm_construct_variable_reference ''group'' ''WebTier'' (Some ''Infrastructure'') = ''${var.infra_groups_path.WebTier_path}''
   \<and> optum_construct_variable_reference ''group'' ''WebTier'' (Some ''Environment'') = ''${var.env_groups_path.WebTier_path}''
   \<and> optum_construct_variable_reference ''group'' ''WebTier'' (Some ''Application'') = ''${var.groups_base_path}/WebTier''"
  using group_reference_keys [of "''WebTier''"] by simp

text \<open>
  C5 as stated fails for Application in \<^verbatim>\<open>policymaker.py\<close>: the key of the group
  \<^verbatim>\<open>WebTier\<close> is \<^verbatim>\<open>WebTier_path\<close>, not \<^verbatim>\<open>WebTier\<close> alone.
\<close>

theorem group_reference_keys_counterexample:
  "pm_construct_variable_reference ''group'' ''WebTier'' (Some ''Application'') = ''${var.app_groups_path.WebTier_path}''
   \<and> pm_construct_variable_reference ''group'' ''WebTier'' (Some ''Application'') \<noteq> ''${var.app_groups_path.WebTier}''"
  by (simp add: pm_construct_variable_reference_def truthy_category_def)

section \<open>Properties of the rule normalizer\<close>

lemma py_eq_PStr: "py_eq v (PStr t) \<longleftrightarrow> v = PStr t"
  by (cases v) (simp_all add: py_eq_def)

lemma pm_process_groups_eq:
  "pm_process_groups category (get r key PNone) = group_references pm_construct_variable_reference category (r key)"
  by (cases "r key"; cases "the (r key)")
     (auto simp: pm_process_groups_def group_references_def get_def py_eq_PStr)

lemma pm_scope_of_eq:
  "pm_scope_of category (get r key PNone) = group_references pm_construct_variable_reference category (r key)"
  by (cases "r key"; cases "the (r key)")
     (auto simp: pm_scope_of_def group_references_def get_def py_eq_PStr notna_def)

lemma optum_process_groups_eq:
  "optum_process_groups category (get r key PNone) = group_references optum_construct_variable_reference category (r key)"
  by (cases "r key"; cases "the (r key)")
     (auto simp: optum_process_groups_def group_references_def get_def py_eq_PStr)

lemma optum_scope_of_eq:
  "optum_scope_of category (get r key PNone) = group_references optum_construct_variable_reference category (r key)"
  by (cases "r key"; cases "the (r key)")
     (auto simp: optum_scope_of_def group_references_def get_def py_eq_PStr notna_def)

text \<open>What a successful call of \<^verbatim>\<open>create_rule\<close> puts into each key.\<close>

lemma pm_create_rule_fields:
  assumes "pm_create_rule float_repr rule_row category log_file = (Inr r, log_file')"
  shows "py_int (get rule_row ''sequence_number'' (PInt 0)) = Inr (sequence_number r)"
    and "destination_groups r = pm_process_groups category (get rule_row ''destination_groups'' PNone)"
    and "source_groups r = pm_process_groups category (get rule_row ''source_groups'' PNone)"
    and "scope r = pm_scope_of category (get rule_row ''scope (Applied To)'' PNone)"
    and "services r = pm_services_of (get rule_row ''services'' PNone)"
    and "destinations_excluded r = convert_to_bool (get rule_row ''destinations_excluded (Negate)'' (PBool False))"
    and "sources_excluded r = convert_to_bool (get rule_row ''sources_excluded (Negate)'' (PBool False))"
    and "disabled r = convert_to_bool (get rule_row ''Rule Disabled'' (PBool False))"
    and "logged r = convert_to_bool (get rule_row ''logged'' (PBool False))"
    and "action r = get rule_row ''action'' (PStr ''ALLOW'')"
    and "direction r = get rule_row ''direction'' (PStr ''IN_OUT'')"
    and "ip_version r = get rule_row ''ip_version'' (PStr ''IPV4_IPV6'')"
    and "display_name r = py_str float_repr (get rule_row ''display_name'' (PStr ''''))"
  using assms unfolding pm_create_rule_def Let_def
  by (cases "py_int (get rule_row ''sequence_number'' (PInt 0))"; auto)+

lemma optum_create_rule_fields:
  assumes "optum_create_rule float_repr rule_row category log_file = (Inr r, log_file')"
  shows "py_int (get rule_row ''sequence_number'' (PInt 0)) = Inr (sequence_number r)"
    and "destination_groups r = optum_process_groups category (get rule_row ''destination_groups'' PNone)"
    and "source_groups r = optum_process_groups category (get rule_row ''source_groups'' PNone)"
    and "scope r = optum_scope_of category (get rule_row ''scope (Applied To)'' PNone)"
    and "services r = optum_services_of (get rule_row ''services'' PNone)"
    and "destinations_excluded r = convert_to_bool (get rule_row ''destinations_excluded (Negate)'' (PBool False))"
    and "sources_excluded r = convert_to_bool (get rule_row ''sources_excluded (Negate)'' (PBool False))"
    and "disabled r = convert_to_bool (get rule_row ''Rule Disabled'' (PBool False))"
    and "logged r = convert_to_bool (get rule_row ''logged'' (PBool False))"
    and "action r = get rule_row ''action'' (PStr ''ALLOW'')"
    and "direction r = get rule_row ''direction'' (PStr ''IN_OUT'')"
    and "ip_version r = get rule_row ''ip_version'' (PStr ''IPV4_IPV6'')"
    and "display_name r = py_str float_repr (get rule_row ''rule_display_name'' (PStr ''''))"
  using assms unfolding optum_create_rule_def Let_def
  by (cases "py_int (get rule_row ''sequence_number'' (PInt 0))"; auto)+

lemma pair_sum_collapse: "fst x = Inr y \<Longrightarrow> x = (Inr (projr (fst x)), snd x)"
  by (cases x) simp

text \<open>
  C2 (amended). For each list-valued rule field (source_groups, destination_groups, scope)
  of a rule that either policy maker builds: when the column is absent, or the cell is not a
  string (an empty cell is NaN), or it is the empty string or exactly \<^verbatim>\<open>any\<close>, the list is
  empty; otherwise the string is split on the comma, each piece is trimmed of surrounding white
  space, and every piece, an empty one included, is passed through the resolver as a group of
  the rule's category. Nothing drops empty pieces.
\<close>

theorem rule_group_lists:
  "(pm_create_rule float_repr rule_row category log_file = (Inr r, log_file') \<longrightarrow>
      source_groups r = group_references pm_construct_variable_reference category (rule_row ''source_groups'')
      \<and> destination_groups r = group_references pm_construct_variable_reference category (rule_row ''destination_groups'')
      \<and> scope r = group_references pm_construct_variable_reference category (rule_row ''scope (Applied To)''))
   \<and> (optum_create_rule float_repr rule_row category log_file = (Inr r', log_file'') \<longrightarrow>
      source_groups r' = group_references optum_construct_variable_reference category (rule_row ''source_groups'')
      \<and> destination_groups r' = group_references optum_construct_variable_reference category (rule_row ''destination_groups'')
      \<and> scope r' = group_references optum_construct_variable_reference category (rule_row ''scope (Applied To)''))"
  by (simp add: pm_create_rule_fields optum_create_rule_fields
      pm_process_groups_eq pm_scope_of_eq optum_process_groups_eq optum_scope_of_eq)

theorem rule_group_lists_witness:
  "source_groups (projr (fst (pm_create_rule (\<lambda>x. '''') example_rule_row ''Infrastructure'' [])))
     = [''${var.infra_groups_path.A_path}'', ''${var.infra_groups_path.B_path}'', ''${var.infra_groups_path.C_path}'']
   \<and> destination_groups (projr (fst (pm_create_rule (\<lambda>x. '''') example_rule_row ''Infrastructure'' []))) = []
   \<and> scope (projr (fst (pm_create_rule (\<lambda>x. '''') example_rule_row ''Infrastructure'' []))) = []
   \<and> source_groups (projr (fst (optum_create_rule (\<lambda>x. '''') example_rule_row ''Application'' [])))
     = [''${var.groups_base_path}/A'', ''${var.groups_base_path}/B'', ''${var.groups_base_path}/C'']"
proof -
  have "\<exists>y. fst (pm_create_rule (\<lambda>x. '''') example_rule_row ''Infrastructure'' []) = Inr y"
    by (simp add: pm_create_rule_def get_def example_rule_row_def)
  then have h1: "pm_create_rule (\<lambda>x. '''') example_rule_row ''Infrastructure'' []
      = (Inr (projr (fst (pm_create_rule (\<lambda>x. '''') example_rule_row ''Infrastructure'' []))),
         snd (pm_create_rule (\<lambda>x. '''') example_rule_row ''Infrastructure'' []))"
    by (auto dest: pair_sum_collapse)
  have "\<exists>y. fst (optum_create_rule (\<lambda>x. '''') example_rule_row ''Application'' []) = Inr y"
    by (simp add: optum_create_rule_def get_def example_rule_row_def)
  then have h2: "optum_create_rule (\<lambda>x. '''') example_rule_row ''Application'' []
      = (Inr (projr (fst (optum_create_rule (\<lambda>x. '''') example_rule_row ''Application'' []))),
         snd (optum_create_rule (\<lambda>x. '''') example_rule_row ''Application'' []))"
    by (auto dest: pair_sum_collapse)
  have g1: "group_references pm_construct_variable_reference ''Infrastructure'' (example_rule_row ''source_groups'')
     = [''${var.infra_groups_path.A_path}'', ''${var.infra_groups_path.B_path}'', ''${var.infra_groups_path.C_path}'']"
    by (simp add: group_references_def example_rule_row_def strip_def isspace_def
        pm_construct_variable_reference_def truthy_category_def)
  have g2: "group_references pm_construct_variable_reference ''Infrastructure'' (example_rule_row ''destination_groups'') = []"
    by (simp add: group_references_def example_rule_row_def)
  have g3: "group_references pm_construct_variable_reference ''Infrastructure'' (example_rule_row ''scope (Applied To)'') = []"
    by (simp add: group_references_def example_rule_row_def)
  have g4: "group_references optum_construct_variable_reference ''Application'' (example_rule_row ''source_groups'')
     = [''${var.groups_base_path}/A'', ''${var.groups_base_path}/B'', ''${var.groups_base_path}/C'']"
    by (simp add: group_references_def example_rule_row_def strip_def isspace_def
        optum_construct_variable_reference_def truthy_category_def)
  note t1 = rule_group_lists [THEN conjunct1, rule_format, OF h1]
  note t2 = rule_group_lists [THEN conjunct2, rule_format, OF h2]
  from t1 t2 show ?thesis by (simp add: g1 g2 g3 g4)
qed

text \<open>
  C2 as stated fails: the trailing comma of \<^verbatim>\<open>"A,"\<close> leaves an empty piece, which is not
  dropped, and the list holds a reference built from the empty name.
\<close>

theorem rule_group_lists_counterexample:
  "pm_process_groups ''Infrastructure'' (PStr ''A,'')
     = [pm_construct_variable_reference ''group'' ''A'' (Some ''Infrastructure''),
        pm_construct_variable_reference ''group'' '''' (Some ''Infrastructure'')]
   \<and> optum_process_groups ''Infrastructure'' (PStr ''A,'')
     = [optum_construct_variable_reference ''group'' ''A'' (Some ''Infrastructure''),
        optum_construct_variable_reference ''group'' '''' (Some ''Infrastructure'')]"
  by (simp add: pm_process_groups_def optum_process_groups_def py_eq_def strip_def isspace_def)

section \<open>Properties of policy assembly\<close>

lemma is_category_error_iff: "is_category_error e \<longleftrightarrow> (\<exists>c. e = ValueError (CategoryNotAllowed c))"
  by (cases e rule: is_category_error.cases) simp_all

lemma validate_category_error:
  "(\<exists>e. validate_category v = Inl e \<and> is_category_error e) \<longleftrightarrow>
   (\<exists>c. v = PStr c \<and> lower c \<notin> {''application'', ''infrastructure'', ''environment''})"
  by (cases v) (auto simp: validate_category_def valid_categories_def Let_def)

lemma validate_category_Inl:
  "validate_category v = Inl e \<Longrightarrow> is_category_error e \<longleftrightarrow> (\<exists>c. v = PStr c)"
  by (cases v) (auto simp: validate_category_def valid_categories_def Let_def split: if_splits)

lemma validate_category_Inr:
  "validate_category v = Inr x \<Longrightarrow>
   \<exists>c. v = PStr c \<and> lower c \<in> {''application'', ''infrastructure'', ''environment''}
        \<and> x \<in> {''Application'', ''Infrastructure'', ''Environment''}"
  by (cases v) (auto simp: validate_category_def valid_categories_def Let_def split: if_splits)

lemma py_int_error: "py_int v = Inl e \<Longrightarrow> \<not> is_category_error e"
  by (cases v rule: py_int.cases) (auto split: option.splits)

lemma pm_create_rule_error:
  "pm_create_rule float_repr rule_row category log_file = (Inl e, log_file') \<Longrightarrow> \<not> is_category_error e"
  unfolding pm_create_rule_def Let_def
  by (auto split: sum.splits dest: py_int_error)

lemma optum_create_rule_error:
  "optum_create_rule float_repr rule_row category log_file = (Inl e, log_file') \<Longrightarrow> \<not> is_category_error e"
  unfolding optum_create_rule_def Let_def
  by (auto split: sum.splits dest: py_int_error)

lemma pm_create_rules_error:
  "pm_create_rules float_repr rules category log_file = (Inl e, log_file') \<Longrightarrow> \<not> is_category_error e"
proof (induction rules arbitrary: log_file)
  case Nil
  then show ?case by simp
next
  case (Cons rule_row rules)
  then show ?case
    by (auto split: prod.splits sum.splits dest: pm_create_rule_error)
qed

lemma optum_create_rules_error:
  "optum_create_rules float_repr rules category log_file = (Inl e, log_file') \<Longrightarrow> \<not> is_category_error e"
proof (induction rules arbitrary: log_file)
  case Nil
  then show ?case by simp
next
  case (Cons rule_row rules)
  then show ?case
    by (auto split: prod.splits sum.splits dest: optum_create_rule_error)
qed

lemma handle_sequence_number_error:
  "handle_sequence_number v ex = Inl e \<Longrightarrow> \<not> is_category_error e"
  unfolding handle_sequence_number_def Let_def
  by (auto split: if_splits sum.splits dest: py_int_error)

lemma pm_create_policy_category_error:
  "(\<exists>e. fst (pm_create_policy float_repr policy_row rules log_file) = Inl e \<and> is_category_error e)
   \<longleftrightarrow> (\<exists>e. validate_category (get policy_row ''category'' (PStr ''Infrastructure'')) = Inl e \<and> is_category_error e)"
  unfolding pm_create_policy_def Let_def
  by (auto split: sum.splits prod.splits dest: pm_create_rules_error)

lemma pm_create_policy_category_state:
  "fst (pm_create_policy float_repr policy_row rules log_file) = Inl e \<Longrightarrow> is_category_error e
   \<Longrightarrow> snd (pm_create_policy float_repr policy_row rules log_file) = log_file"
  unfolding pm_create_policy_def Let_def
  by (auto split: sum.splits prod.splits dest: pm_create_rules_error)

lemma optum_create_policy_category_error:
  "(\<exists>e. fst (optum_create_policy float_repr policy_row rules existing_sequences log_file) = Inl e \<and> is_category_error e)
   \<longleftrightarrow> (\<exists>e. validate_category (get policy_row ''category'' (PStr ''Infrastructure'')) = Inl e \<and> is_category_error e)"
  unfolding optum_create_policy_def Let_def
  by (auto split: sum.splits prod.splits dest: optum_create_rules_error handle_sequence_number_error)

lemma optum_create_policy_category_state:
  "fst (optum_create_policy float_repr policy_row rules existing_sequences log_file) = Inl e \<Longrightarrow> is_category_error e
   \<Longrightarrow> snd (optum_create_policy float_repr policy_row rules existing_sequences log_file) = (existing_sequences, log_file)"
  unfolding optum_create_policy_def Let_def
  by (auto split: sum.splits prod.splits dest: optum_create_rules_error handle_sequence_number_error)

lemma pm_create_rule_log:
  "length (snd (pm_create_rule float_repr rule_row category log_file)) = Suc (length log_file)"
  unfolding pm_create_rule_def Let_def by (simp split: sum.splits)

lemma optum_create_rule_log:
  "length (snd (optum_create_rule float_repr rule_row category log_file)) = Suc (length log_file)"
  unfolding optum_create_rule_def Let_def by (simp split: sum.splits)

lemma pm_create_rules_log:
  "length log_file + (if rules = [] then 0 else 1)
     \<le> length (snd (pm_create_rules float_repr rules category log_file))"
proof (induction rules arbitrary: log_file)
  case Nil
  show ?case by simp
next
  case (Cons rule_row rules)
  obtain res log1 where c: "pm_create_rule float_repr rule_row category log_file = (res, log1)"
    by (cases "pm_create_rule float_repr rule_row category log_file")
  with pm_create_rule_log [of float_repr rule_row category log_file]
  have l1: "length log1 = Suc (length log_file)" by simp
  show ?case
  proof (cases res)
    case (Inl e)
    with c l1 show ?thesis by simp
  next
    case (Inr x)
    obtain res2 log2 where c2: "pm_create_rules float_repr rules category log1 = (res2, log2)"
      by (cases "pm_create_rules float_repr rules category log1")
    from Cons.IH [of log1] c2 have "length log1 \<le> length log2" by (simp split: if_splits)
    with c Inr c2 l1 show ?thesis by (cases res2) simp_all
  qed
qed

lemma optum_create_rules_log:
  "length log_file + (if rules = [] then 0 else 1)
     \<le> length (snd (optum_create_rules float_repr rules category log_file))"
proof (induction rules arbitrary: log_file)
  case Nil
  show ?case by simp
next
  case (Cons rule_row rules)
  obtain res log1 where c: "optum_create_rule float_repr rule_row category log_file = (res, log1)"
    by (cases "optum_create_rule float_repr rule_row category log_file")
  with optum_create_rule_log [of float_repr rule_row category log_file]
  have l1: "length log1 = Suc (length log_file)" by simp
  show ?case
  proof (cases res)
    case (Inl e)
    with c l1 show ?thesis by simp
  next
    case (Inr x)
    obtain res2 log2 where c2: "optum_create_rules float_repr rules category log1 = (res2, log2)"
      by (cases "optum_create_rules float_repr rules category log1")
    from Cons.IH [of log1] c2 have "length log1 \<le> length log2" by (simp split: if_splits)
    with c Inr c2 l1 show ?thesis by (cases res2) simp_all
  qed
qed

text \<open>
  C3 (amended). Policy assembly fails with the validation error exactly when the category
  field of the header row, with \<^verbatim>\<open>Infrastructure\<close> standing in when the column is absent, is a
  text whose lower-case form is not one of \<^verbatim>\<open>application\<close>, \<^verbatim>\<open>infrastructure\<close>,
  \<^verbatim>\<open>environment\<close>; a category cell that is not a text never gives the validation error.
  When assembly fails so, no rule has been constructed: the state comes back unchanged,
  whereas every call of \<^verbatim>\<open>create_rule\<close> appends a message to the debug log. Both policy
  makers behave so.
\<close>

theorem category_validation:
  "((\<exists>e. fst (pm_create_policy float_repr policy_row rules log_file) = Inl e \<and> is_category_error e)
      \<longleftrightarrow> (\<exists>c. get policy_row ''category'' (PStr ''Infrastructure'') = PStr c
               \<and> lower c \<notin> {''application'', ''infrastructure'', ''environment''}))
   \<and> ((\<exists>e. fst (optum_create_policy float_repr policy_row rules existing_sequences log_file) = Inl e \<and> is_category_error e)
      \<longleftrightarrow> (\<exists>c. get policy_row ''category'' (PStr ''Infrastructure'') = PStr c
               \<and> lower c \<notin> {''application'', ''infrastructure'', ''environment''}))
   \<and> ((\<exists>e. fst (pm_create_policy float_repr policy_row rules log_file) = Inl e \<and> is_category_error e)
      \<longrightarrow> snd (pm_create_policy float_repr policy_row rules log_file) = log_file)
   \<and> ((\<exists>e. fst (optum_create_policy float_repr policy_row rules existing_sequences log_file) = Inl e \<and> is_category_error e)
      \<longrightarrow> snd (optum_create_policy float_repr policy_row rules existing_sequences log_file) = (existing_sequences, log_file))
   \<and> (rules \<noteq> [] \<longrightarrow> length log_file < length (snd (pm_create_rules float_repr rules category log_file))
                      \<and> length log_file < length (snd (optum_create_rules float_repr rules category log_file)))"
proof (intro conjI impI)
  show "(\<exists>e. fst (pm_create_policy float_repr policy_row rules log_file) = Inl e \<and> is_category_error e)
      \<longleftrightarrow> (\<exists>c. get policy_row ''category'' (PStr ''Infrastructure'') = PStr c
               \<and> lower c \<notin> {''application'', ''infrastructure'', ''environment''})"
    by (simp only: pm_create_policy_category_error validate_category_error)
  show "(\<exists>e. fst (optum_create_policy float_repr policy_row rules existing_sequences log_file) = Inl e \<and> is_category_error e)
      \<longleftrightarrow> (\<exists>c. get policy_row ''category'' (PStr ''Infrastructure'') = PStr c
               \<and> lower c \<notin> {''application'', ''infrastructure'', ''environment''})"
    by (simp only: optum_create_policy_category_error validate_category_error)
  show "snd (pm_create_policy float_repr policy_row rules log_file) = log_file"
    if "\<exists>e. fst (pm_create_policy float_repr policy_row rules log_file) = Inl e \<and> is_category_error e"
    using that by (auto dest: pm_create_policy_category_state)
  show "snd (optum_create_policy float_repr policy_row rules existing_sequences log_file) = (existing_sequences, log_file)"
    if "\<exists>e. fst (optum_create_policy float_repr policy_row rules existing_sequences log_file) = Inl e \<and> is_category_error e"
    using that by (auto dest: optum_create_policy_category_state)
  show "length log_file < length (snd (pm_create_rules float_repr rules category log_file))" if "rules \<noteq> []"
    using that pm_create_rules_log [of log_file rules float_repr category] by simp
  show "length log_file < length (snd (optum_create_rules float_repr rules category log_file))" if "rules \<noteq> []"
    using that optum_create_rules_log [of log_file rules float_repr category] by simp
qed

theorem category_validation_witness:
  "(\<exists>e. fst (pm_create_policy (\<lambda>x. '''') example_header [example_rule_row] []) = Inl e \<and> is_category_error e)
   \<and> snd (pm_create_policy (\<lambda>x. '''') example_header [example_rule_row] []) = []
   \<and> (\<exists>e. fst (optum_create_policy (\<lambda>x. '''') example_header [example_rule_row] {||} []) = Inl e \<and> is_category_error e)
   \<and> snd (optum_create_policy (\<lambda>x. '''') example_header [example_rule_row] {||} []) = ({||}, [])
   \<and> 0 < length (snd (pm_create_rules (\<lambda>x. '''') [example_rule_row] ''Infrastructure'' []))
   \<and> 0 < length (snd (optum_create_rules (\<lambda>x. '''') [example_rule_row] ''Infrastructure'' []))"
proof -
  have c: "\<exists>c. get example_header ''category'' (PStr ''Infrastructure'') = PStr c
               \<and> lower c \<notin> {''application'', ''infrastructure'', ''environment''}"
    by (simp add: get_def example_header_def lower_def lower_char_def)
  have ne: "[example_rule_row] \<noteq> []" by simp
  note t = category_validation [of "\<lambda>x. ''''" example_header "[example_rule_row]" "[]" "{||}" "''Infrastructure''"]
  from t c have a: "\<exists>e. fst (pm_create_policy (\<lambda>x. '''') example_header [example_rule_row] []) = Inl e \<and> is_category_error e"
    by blast
  from t c have b: "\<exists>e. fst (optum_create_policy (\<lambda>x. '''') example_header [example_rule_row] {||} []) = Inl e \<and> is_category_error e"
    by blast
  from t ne have l: "length ([] :: string list) < length (snd (pm_create_rules (\<lambda>x. '''') [example_rule_row] ''Infrastructure'' []))"
    "length ([] :: string list) < length (snd (optum_create_rules (\<lambda>x. '''') [example_rule_row] ''Infrastructure'' []))"
    by blast+
  from t a b l show ?thesis by simp
qed

text \<open>
  C3 as stated fails on two kinds of header rows. An empty category cell is not one of the
  three names, yet assembly does not fail with the validation error: \<^verbatim>\<open>category.lower()\<close>
  raises \<^verbatim>\<open>AttributeError\<close>. And a header without the category column, which names none of
  the three either, does not fail at all: it is assembled as \<^verbatim>\<open>Infrastructure\<close>.
\<close>

theorem category_validation_counterexample:
  "(example_plain_header(''category'' \<mapsto> PFloat NaN)) ''category'' = Some (PFloat NaN)
   \<and> fst (pm_create_policy (\<lambda>x. '''') (example_plain_header(''category'' \<mapsto> PFloat NaN)) [example_rule_row] [])
       = Inl AttributeError
   \<and> fst (optum_create_policy (\<lambda>x. '''') (example_plain_header(''category'' \<mapsto> PFloat NaN)) [example_rule_row] {||} [])
       = Inl AttributeError
   \<and> \<not> is_category_error AttributeError
   \<and> (example_plain_header(''category'' := None)) ''category'' = None
   \<and> (\<exists>p. fst (pm_create_policy (\<lambda>x. '''') (example_plain_header(''category'' := None)) [] []) = Inr p
            \<and> p_category p = ''Infrastructure'')
   \<and> (\<exists>p. fst (optum_create_policy (\<lambda>x. '''') (example_plain_header(''category'' := None)) [] {||} []) = Inr p
            \<and> p_category p = ''Infrastructure'')"
  by (simp add: pm_create_policy_def optum_create_policy_def Let_def get_def validate_category_def
      valid_categories_def lower_def lower_char_def example_plain_header_def
      handle_sequence_number_def next_free.simps str_int_def digit_char_def)

lemma next_free_ge: "n \<le> next_free n ex"
  by (induction n ex rule: next_free.induct) (subst next_free.simps, fastforce)

lemma next_free_notin: "str_int (next_free n ex) |\<notin>| ex"
  by (induction n ex rule: next_free.induct) (subst next_free.simps, simp)

lemma next_free_least: "n \<le> k \<Longrightarrow> k < next_free n ex \<Longrightarrow> str_int k |\<in>| ex"
proof (induction n ex rule: next_free.induct)
  case (1 n ex)
  show ?case
  proof (cases "str_int n |\<in>| ex")
    case True
    show ?thesis
    proof (cases "k = n")
      case True
      with \<open>str_int n |\<in>| ex\<close> show ?thesis by simp
    next
      case False
      with "1.prems" have "n + 1 \<le> k" by simp
      moreover from "1.prems" True have "k < next_free (n + 1) ex"
        by (subst (asm) next_free.simps) simp
      ultimately show ?thesis using "1.IH" [OF True] by simp
    qed
  next
    case False
    with "1.prems" show ?thesis by (subst (asm) next_free.simps) simp
  qed
qed

lemma isinstance_int_float_py_str:
  "handle_sequence_number v ex = Inr (v', ex') \<Longrightarrow> isinstance_int_float v \<Longrightarrow>
   \<exists>n. py_int v = Inr n \<and> v' = PInt (next_free n ex) \<and> ex' = finsert (str_int (next_free n ex)) ex"
  unfolding handle_sequence_number_def Let_def
  by (auto split: sum.splits)

lemma handle_sequence_number_mono:
  "handle_sequence_number v ex = Inr (v', ex') \<Longrightarrow> ex |\<subseteq>| ex'"
  unfolding handle_sequence_number_def Let_def
  by (auto split: sum.splits if_splits)

lemma optum_create_policy_Inr:
  assumes "optum_create_policy float_repr policy_row rules ex log_file = (Inr p, ex', log_file')"
  shows "\<exists>v. handle_sequence_number (get policy_row ''sequence_number'' (PInt 0)) ex = Inr (v, ex')
             \<and> p_sequence_number p = PStr (py_str float_repr v)"
  using assms unfolding optum_create_policy_def Let_def
  by (auto split: sum.splits prod.splits)

lemma optum_create_policy_mono:
  "optum_create_policy float_repr policy_row rules ex log_file = (res, ex', log_file') \<Longrightarrow> ex |\<subseteq>| ex'"
  unfolding optum_create_policy_def Let_def
  by (auto split: sum.splits prod.splits dest: handle_sequence_number_mono)

lemma optum_create_policy_numeric:
  assumes "optum_create_policy float_repr policy_row rules ex log_file = (Inr p, ex', log_file')"
    and "isinstance_int_float (get policy_row ''sequence_number'' (PInt 0))"
  shows "\<exists>n. py_int (get policy_row ''sequence_number'' (PInt 0)) = Inr n
             \<and> p_sequence_number p = PStr (str_int (next_free n ex))
             \<and> ex' = finsert (str_int (next_free n ex)) ex"
proof -
  from optum_create_policy_Inr [OF assms(1)] obtain v where
    h: "handle_sequence_number (get policy_row ''sequence_number'' (PInt 0)) ex = Inr (v, ex')"
    and s: "p_sequence_number p = PStr (py_str float_repr v)" by blast
  from isinstance_int_float_py_str [OF h assms(2)] s show ?thesis by auto
qed

lemma main_policies_mono:
  "main_policies float_repr pairs ex log_file = (policies, ex', log_file', err) \<Longrightarrow> ex |\<subseteq>| ex'"
proof (induction pairs arbitrary: ex log_file policies)
  case Nil
  then show ?case by simp
next
  case (Cons pair pairs)
  obtain policy_row rules where pair: "pair = (policy_row, rules)" by (cases pair)
  obtain res ex1 log1 where c: "optum_create_policy float_repr policy_row rules ex log_file = (res, ex1, log1)"
    by (cases "optum_create_policy float_repr policy_row rules ex log_file")
  from optum_create_policy_mono [OF c] have m: "ex |\<subseteq>| ex1" .
  show ?case
  proof (cases res)
    case (Inl e)
    with Cons.prems pair c m show ?thesis by simp
  next
    case (Inr p)
    obtain ps st where r: "main_policies float_repr pairs ex1 log1 = (ps, st)"
      by (cases "main_policies float_repr pairs ex1 log1")
    with Cons.prems pair c Inr have "st = (ex', log_file', err)" by simp
    with r Cons.IH [of ex1 log1 ps] m show ?thesis by auto
  qed
qed

lemma main_policies_numbers:
  assumes "\<forall>(policy_row, rules) \<in> set pairs. isinstance_int_float (get policy_row ''sequence_number'' (PInt 0))"
    and "main_policies float_repr pairs ex log_file = (policies, ex', log_file', err)"
  shows "distinct (map p_sequence_number policies)
         \<and> (\<forall>p \<in> set policies. \<exists>n. p_sequence_number p = PStr (str_int n) \<and> str_int n |\<notin>| ex \<and> str_int n |\<in>| ex')"
  using assms
proof (induction pairs arbitrary: ex log_file policies)
  case Nil
  then show ?case by simp
next
  case (Cons pair pairs)
  obtain policy_row rules where pair: "pair = (policy_row, rules)" by (cases pair)
  obtain res ex1 log1 where c: "optum_create_policy float_repr policy_row rules ex log_file = (res, ex1, log1)"
    by (cases "optum_create_policy float_repr policy_row rules ex log_file")
  show ?case
  proof (cases res)
    case (Inl e)
    with Cons.prems pair c show ?thesis by simp
  next
    case (Inr p)
    obtain ps st where r: "main_policies float_repr pairs ex1 log1 = (ps, st)"
      by (cases "main_policies float_repr pairs ex1 log1")
    with Cons.prems(2) pair c Inr have st: "st = (ex', log_file', err)" and pol: "policies = p # ps" by simp_all
    from Cons.prems(1) pair have num: "isinstance_int_float (get policy_row ''sequence_number'' (PInt 0))"
      and rest: "\<forall>(policy_row, rules) \<in> set pairs. isinstance_int_float (get policy_row ''sequence_number'' (PInt 0))"
      by simp_all
    from optum_create_policy_numeric [OF c [unfolded Inr] num] obtain n where
      pn: "p_sequence_number p = PStr (str_int (next_free n ex))"
      and ex1: "ex1 = finsert (str_int (next_free n ex)) ex" by blast
    from Cons.IH [OF rest r [unfolded st]] have
      d: "distinct (map p_sequence_number ps)"
      and a: "\<forall>q \<in> set ps. \<exists>m. p_sequence_number q = PStr (str_int m) \<and> str_int m |\<notin>| ex1 \<and> str_int m |\<in>| ex'"
      by simp_all
    from main_policies_mono [OF r [unfolded st]] have sub: "ex1 |\<subseteq>| ex'" .
    have "p_sequence_number p \<notin> set (map p_sequence_number ps)"
    proof
      assume "p_sequence_number p \<in> set (map p_sequence_number ps)"
      then obtain q where q: "q \<in> set ps" "p_sequence_number q = p_sequence_number p" by auto
      with a obtain m where "p_sequence_number q = PStr (str_int m)" "str_int m |\<notin>| ex1" by blast
      with q pn ex1 show False by simp
    qed
    moreover have "\<exists>k. p_sequence_number p = PStr (str_int k) \<and> str_int k |\<notin>| ex \<and> str_int k |\<in>| ex'"
      using pn next_free_notin [of n ex] sub ex1 by auto
    moreover have "\<forall>q \<in> set ps. \<exists>m. p_sequence_number q = PStr (str_int m) \<and> str_int m |\<notin>| ex \<and> str_int m |\<in>| ex'"
      using a ex1 by auto
    ultimately show ?thesis using d pol by simp
  qed
qed

text \<open>
  The deduplication block of \<^verbatim>\<open>create_policy\<close> in \<^verbatim>\<open>optum_policy_maker.py\<close>, for a sequence
  number that passes its guard \<^verbatim>\<open>isinstance(sequence_number, (int, float))\<close>: a Python
  \<^verbatim>\<open>int\<close> or \<^verbatim>\<open>bool\<close>, or a float. For such a number \<open>n\<close> (after \<^verbatim>\<open>int()\<close>) the policy
  carries the first \<open>m \<ge> n\<close> whose decimal string is not in the shared set: every candidate
  from \<open>n\<close> up to \<open>m\<close> was in use, \<open>m\<close> was not, and \<open>m\<close> is recorded in the set. When the
  sequence numbers of all headers pass the guard, the policies produced in one run carry
  pairwise distinct sequence numbers.
\<close>

theorem batch_sequence_numbers:
  "(isinstance_int_float (get policy_row ''sequence_number'' (PInt 0)) \<longrightarrow>
    optum_create_policy float_repr policy_row rules ex log_file = (Inr p, ex1, log1) \<longrightarrow>
      (\<exists>n m. py_int (get policy_row ''sequence_number'' (PInt 0)) = Inr n
         \<and> n \<le> m \<and> (\<forall>k. n \<le> k \<and> k < m \<longrightarrow> str_int k |\<in>| ex) \<and> str_int m |\<notin>| ex
         \<and> p_sequence_number p = PStr (str_int m) \<and> ex1 = finsert (str_int m) ex))
   \<and> ((\<forall>(policy_row, rules) \<in> set pairs. isinstance_int_float (get policy_row ''sequence_number'' (PInt 0))) \<longrightarrow>
       main_policies float_repr pairs ex log_file = (policies, ex2, log2, err) \<longrightarrow>
         distinct (map p_sequence_number policies))"
proof (intro conjI impI)
  assume num: "isinstance_int_float (get policy_row ''sequence_number'' (PInt 0))"
    and c: "optum_create_policy float_repr policy_row rules ex log_file = (Inr p, ex1, log1)"
  from optum_create_policy_numeric [OF c num] obtain n where
    n: "py_int (get policy_row ''sequence_number'' (PInt 0)) = Inr n"
    "p_sequence_number p = PStr (str_int (next_free n ex))"
    "ex1 = finsert (str_int (next_free n ex)) ex" by blast
  with next_free_ge [of n ex] next_free_notin [of n ex] next_free_least [of n _ ex]
  show "\<exists>n m. py_int (get policy_row ''sequence_number'' (PInt 0)) = Inr n
         \<and> n \<le> m \<and> (\<forall>k. n \<le> k \<and> k < m \<longrightarrow> str_int k |\<in>| ex) \<and> str_int m |\<notin>| ex
         \<and> p_sequence_number p = PStr (str_int m) \<and> ex1 = finsert (str_int m) ex"
    by blast
next
  assume "\<forall>(policy_row, rules) \<in> set pairs. isinstance_int_float (get policy_row ''sequence_number'' (PInt 0))"
    and "main_policies float_repr pairs ex log_file = (policies, ex2, log2, err)"
  from main_policies_numbers [OF this] show "distinct (map p_sequence_number policies)" by simp
qed

lemma triple_sum_collapse: "fst x = Inr y \<Longrightarrow> x = (Inr (projr (fst x)), fst (snd x), snd (snd x))"
  by (cases x) auto

theorem batch_sequence_numbers_witness:
  "map p_sequence_number (fst (optum_main (\<lambda>x. '''') [(example_header_5, []), (example_header_5, [])] []))
     = [PStr ''5'', PStr ''6'']
   \<and> distinct (map p_sequence_number (fst (optum_main (\<lambda>x. '''') [(example_header_5, []), (example_header_5, [])] [])))
   \<and> p_sequence_number (projr (fst (optum_create_policy (\<lambda>x. '''') example_header_5 [] {|''5''|} []))) = PStr ''6''"
proof -
  let ?run = "main_policies (\<lambda>x. '''') [(example_header_5, []), (example_header_5, [])] {||} []"
  let ?call = "optum_create_policy (\<lambda>x. '''') example_header_5 [] {|''5''|} []"
  have num: "isinstance_int_float (get example_header_5 ''sequence_number'' (PInt 0))"
    by (simp add: get_def example_header_5_def)
  have cat: "validate_category (get example_header_5 ''category'' (PStr ''Infrastructure'')) = Inr ''Infrastructure''"
    by (simp add: get_def example_header_5_def validate_category_def valid_categories_def
        lower_def lower_char_def)
  have five: "str_int 5 = ''5''" and six: "str_int 6 = ''6''"
    by (simp_all add: str_int_def digit_char_def)
  have nf0: "next_free 5 {||} = 5"
    by (subst next_free.simps) simp
  have nf1: "next_free 5 {|''5''|} = 6"
    by (subst next_free.simps, simp add: five, subst next_free.simps, simp add: six)
  have seq: "get example_header_5 ''sequence_number'' (PInt 0) = PInt 5"
    by (simp add: get_def example_header_5_def)
  have step: "\<exists>p. optum_create_policy (\<lambda>x. '''') example_header_5 [] ex []
                 = (Inr p, finsert (str_int (next_free 5 ex)) ex, [])
               \<and> p_sequence_number p = PStr (str_int (next_free 5 ex))" for ex
    by (simp add: optum_create_policy_def cat seq handle_sequence_number_def Let_def)
  from step [of "{||}"] nf0 five obtain p1 where
    p1: "optum_create_policy (\<lambda>x. '''') example_header_5 [] {||} [] = (Inr p1, {|''5''|}, [])"
      "p_sequence_number p1 = PStr ''5''" by auto
  from step [of "{|''5''|}"] nf1 five six obtain p2 where
    p2: "optum_create_policy (\<lambda>x. '''') example_header_5 [] {|''5''|} []
           = (Inr p2, {|''6'', ''5''|}, [])"
      "p_sequence_number p2 = PStr ''6''" by auto
  have vals: "map p_sequence_number (fst ?run) = [PStr ''5'', PStr ''6'']"
    by (simp add: p1 p2)
  have all: "\<forall>(policy_row, rules) \<in> set [(example_header_5, []), (example_header_5, [])].
               isinstance_int_float (get policy_row ''sequence_number'' (PInt 0))"
    using num by simp
  have run: "?run = (fst ?run, fst (snd ?run), fst (snd (snd ?run)), snd (snd (snd ?run)))"
    by simp
  from batch_sequence_numbers [THEN conjunct2, THEN mp, THEN mp, OF all run]
  have d: "distinct (map p_sequence_number (fst ?run))" .
  from p2 have "\<exists>y. fst ?call = Inr y"
    by simp
  then have call: "?call = (Inr (projr (fst ?call)), fst (snd ?call), snd (snd ?call))"
    by (auto dest: triple_sum_collapse)
  from batch_sequence_numbers [THEN conjunct1, THEN mp, THEN mp, OF num call]
  obtain n m where n: "py_int (get example_header_5 ''sequence_number'' (PInt 0)) = Inr n"
    and le: "n \<le> m"
    and used: "\<forall>k. n \<le> k \<and> k < m \<longrightarrow> str_int k |\<in>| {|''5''|}"
    and free: "str_int m |\<notin>| {|''5''|}"
    and p: "p_sequence_number (projr (fst ?call)) = PStr (str_int m)"
    by blast
  from n seq have n5: "n = 5" by simp
  from free five have "m \<noteq> 5" by auto
  moreover have "\<not> 6 < m"
  proof
    assume "6 < m"
    with used n5 have "str_int 6 |\<in>| {|''5''|}" by simp
    with six show False by simp
  qed
  ultimately have "m = 6" using le n5 by arith
  with p six have "p_sequence_number (projr (fst ?call)) = PStr ''6''" by simp
  with vals d show ?thesis by (simp add: optum_main_def)
qed

text \<open>
  C4. The claim holds of the deduplication block, but on the way from a file the block is not
  reached: an integer cell of the header row \<^verbatim>\<open>policy_df.iloc[0]\<close> is a \<^verbatim>\<open>numpy.int64\<close>, which
  is an instance of neither \<^verbatim>\<open>int\<close> nor \<^verbatim>\<open>float\<close>. The guard is false, the candidate is
  neither compared with the set nor recorded in it, and two tabs that both specify the
  sequence number 5 are produced in one run with 5 and 5, not 5 and 6.
\<close>

theorem batch_sequence_numbers_collide:
  "map p_sequence_number (fst (optum_main (\<lambda>x. '''') [(example_tab_1, []), (example_tab_2, [])] []))
     = [PStr ''5'', PStr ''5'']
   \<and> map policy_name (fst (optum_main (\<lambda>x. '''') [(example_tab_1, []), (example_tab_2, [])] []))
     = [''App1-Web'', ''App1-DB'']
   \<and> fst (snd (optum_main (\<lambda>x. '''') [(example_tab_1, []), (example_tab_2, [])] [])) = {||}
   \<and> snd (snd (snd (optum_main (\<lambda>x. '''') [(example_tab_1, []), (example_tab_2, [])] []))) = None
   \<and> \<not> isinstance_int_float (PNpInt 5)"
  by (simp add: optum_main_def optum_create_policy_def Let_def get_def validate_category_def
      valid_categories_def lower_def lower_char_def example_tab_1_def example_tab_2_def
      handle_sequence_number_def str_int_def digit_char_def)

section \<open>Properties of the coercions and defaults\<close>

lemma upper_char_TRUE:
  "upper_char c = CHR ''T'' \<longleftrightarrow> c = CHR ''T'' \<or> c = CHR ''t''"
  "upper_char c = CHR ''R'' \<longleftrightarrow> c = CHR ''R'' \<or> c = CHR ''r''"
  "upper_char c = CHR ''U'' \<longleftrightarrow> c = CHR ''U'' \<or> c = CHR ''u''"
  "upper_char c = CHR ''E'' \<longleftrightarrow> c = CHR ''E'' \<or> c = CHR ''e''"
  by (auto simp: upper_char_def split: if_splits)

lemma lower_char_true:
  "lower_char c = CHR ''t'' \<longleftrightarrow> c = CHR ''T'' \<or> c = CHR ''t''"
  "lower_char c = CHR ''r'' \<longleftrightarrow> c = CHR ''R'' \<or> c = CHR ''r''"
  "lower_char c = CHR ''u'' \<longleftrightarrow> c = CHR ''U'' \<or> c = CHR ''u''"
  "lower_char c = CHR ''e'' \<longleftrightarrow> c = CHR ''E'' \<or> c = CHR ''e''"
  by (auto simp: lower_char_def split: if_splits)

lemma upper_TRUE: "upper s = ''TRUE'' \<longleftrightarrow> equal_ignoring_case s ''TRUE''"
proof -
  have l: "lower ''TRUE'' = ''true''" by (simp add: lower_def lower_char_def)
  show ?thesis
    unfolding equal_ignoring_case_def l
    by (simp add: upper_def lower_def map_eq_Cons_conv upper_char_TRUE lower_char_true)
qed

lemma boolean_field_get: "convert_to_bool (get r key (PBool False)) = boolean_field (r key)"
  by (simp add: get_def boolean_field_def split: option.splits)

lemma pm_create_policy_fields:
  assumes "pm_create_policy float_repr policy_row rules log_file = (Inr p, log_file')"
  shows "p_locked p = convert_to_bool (get policy_row ''locked'' (PBool False))"
    and "p_sequence_number p =
           (if py_eq (get policy_row ''sequence_number'' (PInt 0)) (PInt 0) then PStr ''''
            else get policy_row ''sequence_number'' (PInt 0))"
    and "validate_category (get policy_row ''category'' (PStr ''Infrastructure'')) = Inr (p_category p)"
    and "pm_create_rules float_repr rules (p_category p) log_file = (Inr (p_rule p), log_file')"
  using assms unfolding pm_create_policy_def Let_def
  by (auto split: sum.splits prod.splits)

lemma optum_create_policy_fields:
  assumes "optum_create_policy float_repr policy_row rules ex log_file = (Inr p, ex', log_file')"
  shows "p_locked p = convert_to_bool (get policy_row ''locked'' (PBool False))"
    and "validate_category (get policy_row ''category'' (PStr ''Infrastructure'')) = Inr (p_category p)"
    and "optum_create_rules float_repr rules (p_category p) log_file = (Inr (p_rule p), log_file')"
  using assms unfolding optum_create_policy_def Let_def
  by (auto split: sum.splits prod.splits)

text \<open>
  The coercion, constructor by constructor. It returns a Python boolean unchanged; for a
  string it is true exactly when the string equals \<^verbatim>\<open>TRUE\<close> up to the case of its letters; for
  a Python \<^verbatim>\<open>int\<close> or a float it is true exactly when the number is 1; and it is false for
  everything else: \<^verbatim>\<open>None\<close>, an empty cell, and the numpy scalars \<^verbatim>\<open>numpy.int64\<close> and
  \<^verbatim>\<open>numpy.bool_\<close>, whatever they hold. Every boolean field of a rule (disabled, logged,
  sources_excluded, destinations_excluded) and the locked flag of a policy is this coercion of
  the cell, and false when the column is absent, in both policy makers.
\<close>

theorem boolean_coercion:
  "convert_to_bool (PBool b) = b
   \<and> convert_to_bool (PStr s) = equal_ignoring_case s ''TRUE''
   \<and> convert_to_bool (PInt i) = (i = 1)
   \<and> convert_to_bool (PFloat f) = (f = Finite 1)
   \<and> convert_to_bool PNone = False
   \<and> \<not> convert_to_bool (PNpInt j)
   \<and> \<not> convert_to_bool (PNpBool c)
   \<and> (pm_create_rule float_repr rule_row category log_file = (Inr r, log_file') \<longrightarrow>
        disabled r = boolean_field (rule_row ''Rule Disabled'')
        \<and> logged r = boolean_field (rule_row ''logged'')
        \<and> sources_excluded r = boolean_field (rule_row ''sources_excluded (Negate)'')
        \<and> destinations_excluded r = boolean_field (rule_row ''destinations_excluded (Negate)''))
   \<and> (optum_create_rule float_repr rule_row category log_file = (Inr r', log_file'') \<longrightarrow>
        disabled r' = boolean_field (rule_row ''Rule Disabled'')
        \<and> logged r' = boolean_field (rule_row ''logged'')
        \<and> sources_excluded r' = boolean_field (rule_row ''sources_excluded (Negate)'')
        \<and> destinations_excluded r' = boolean_field (rule_row ''destinations_excluded (Negate)''))
   \<and> (pm_create_policy float_repr policy_row rules log_file = (Inr p, log1) \<longrightarrow>
        p_locked p = boolean_field (policy_row ''locked''))
   \<and> (optum_create_policy float_repr policy_row rules ex log_file = (Inr p', ex2, log2) \<longrightarrow>
        p_locked p' = boolean_field (policy_row ''locked''))"
proof (intro conjI impI)
  show "convert_to_bool (PStr s) = equal_ignoring_case s ''TRUE''"
    by (simp add: upper_TRUE)
  show "convert_to_bool (PInt i) = (i = 1)"
    by (simp add: py_eq_def)
  show "convert_to_bool (PFloat f) = (f = Finite 1)"
    by (cases f) (auto simp: py_eq_def)
qed (simp_all add: pm_create_rule_fields optum_create_rule_fields
       pm_create_policy_fields optum_create_policy_fields boolean_field_get)

theorem boolean_coercion_witness:
  "convert_to_bool (PStr ''tRuE'') \<and> convert_to_bool (PFloat (Finite 1.0)) \<and> convert_to_bool (PInt 1)
   \<and> \<not> convert_to_bool (PInt 0) \<and> \<not> convert_to_bool (PStr ''false'') \<and> \<not> convert_to_bool (PStr '''')
   \<and> \<not> convert_to_bool (PStr ''1'') \<and> \<not> convert_to_bool (PFloat NaN) \<and> \<not> convert_to_bool PNone
   \<and> disabled (projr (fst (pm_create_rule (\<lambda>x. '''') example_flags_row ''Application'' [])))
   \<and> logged (projr (fst (pm_create_rule (\<lambda>x. '''') example_flags_row ''Application'' [])))
   \<and> \<not> sources_excluded (projr (fst (pm_create_rule (\<lambda>x. '''') example_flags_row ''Application'' [])))
   \<and> \<not> destinations_excluded (projr (fst (pm_create_rule (\<lambda>x. '''') example_flags_row ''Application'' [])))
   \<and> disabled (projr (fst (optum_create_rule (\<lambda>x. '''') example_flags_row ''Application'' [])))
   \<and> \<not> destinations_excluded (projr (fst (optum_create_rule (\<lambda>x. '''') example_flags_row ''Application'' [])))
   \<and> p_locked (projr (fst (pm_create_policy (\<lambda>x. '''') example_locked_header [example_flags_row] [])))
   \<and> p_locked (projr (fst (optum_create_policy (\<lambda>x. '''') example_locked_header [example_flags_row] {||} [])))"
proof -
  note t = boolean_coercion
  have e: "equal_ignoring_case ''tRuE'' ''TRUE''" "\<not> equal_ignoring_case ''false'' ''TRUE''"
    "\<not> equal_ignoring_case '''' ''TRUE''" "\<not> equal_ignoring_case ''1'' ''TRUE''"
    by (simp_all add: equal_ignoring_case_def lower_def lower_char_def)
  have cat: "validate_category (get example_locked_header ''category'' (PStr ''Infrastructure'')) = Inr ''Application''"
    by (simp add: get_def example_locked_header_def validate_category_def valid_categories_def
        lower_def lower_char_def)
  have seq: "py_int (get example_flags_row ''sequence_number'' (PInt 0)) = Inr 20"
    by (simp add: get_def example_flags_row_def)
  have "\<exists>y. fst (pm_create_rule (\<lambda>x. '''') example_flags_row ''Application'' []) = Inr y"
    by (simp add: pm_create_rule_def seq)
  then have h1: "pm_create_rule (\<lambda>x. '''') example_flags_row ''Application'' []
      = (Inr (projr (fst (pm_create_rule (\<lambda>x. '''') example_flags_row ''Application'' []))),
         snd (pm_create_rule (\<lambda>x. '''') example_flags_row ''Application'' []))"
    by (auto dest: pair_sum_collapse)
  have "\<exists>y. fst (optum_create_rule (\<lambda>x. '''') example_flags_row ''Application'' []) = Inr y"
    by (simp add: optum_create_rule_def seq)
  then have h2: "optum_create_rule (\<lambda>x. '''') example_flags_row ''Application'' []
      = (Inr (projr (fst (optum_create_rule (\<lambda>x. '''') example_flags_row ''Application'' []))),
         snd (optum_create_rule (\<lambda>x. '''') example_flags_row ''Application'' []))"
    by (auto dest: pair_sum_collapse)
  have "\<exists>y. fst (pm_create_policy (\<lambda>x. '''') example_locked_header [example_flags_row] []) = Inr y"
    by (simp add: pm_create_policy_def pm_create_rule_def Let_def cat seq)
  then have h3: "pm_create_policy (\<lambda>x. '''') example_locked_header [example_flags_row] []
      = (Inr (projr (fst (pm_create_policy (\<lambda>x. '''') example_locked_header [example_flags_row] []))),
         snd (pm_create_policy (\<lambda>x. '''') example_locked_header [example_flags_row] []))"
    by (auto dest: pair_sum_collapse)
  have "\<exists>y. fst (optum_create_policy (\<lambda>x. '''') example_locked_header [example_flags_row] {||} []) = Inr y"
    by (simp add: optum_create_policy_def optum_create_rule_def Let_def get_def
        example_flags_row_def example_locked_header_def validate_category_def valid_categories_def
        lower_def lower_char_def handle_sequence_number_def)
  then have h4: "optum_create_policy (\<lambda>x. '''') example_locked_header [example_flags_row] {||} []
      = (Inr (projr (fst (optum_create_policy (\<lambda>x. '''') example_locked_header [example_flags_row] {||} []))),
         fst (snd (optum_create_policy (\<lambda>x. '''') example_locked_header [example_flags_row] {||} [])),
         snd (snd (optum_create_policy (\<lambda>x. '''') example_locked_header [example_flags_row] {||} [])))"
    by (auto dest: triple_sum_collapse)
  have b: "boolean_field (example_flags_row ''Rule Disabled'')" "boolean_field (example_flags_row ''logged'')"
    "\<not> boolean_field (example_flags_row ''sources_excluded (Negate)'')"
    "\<not> boolean_field (example_flags_row ''destinations_excluded (Negate)'')"
    "boolean_field (example_locked_header ''locked'')"
    by (simp_all add: boolean_field_def example_flags_row_def example_locked_header_def
        upper_def upper_char_def py_eq_def)
  have c1: "convert_to_bool (PStr ''tRuE'')" using t [where s = "''tRuE''"] e by simp
  have c2: "convert_to_bool (PFloat (Finite 1.0))" using t [where f = "Finite 1.0"] by simp
  have c3: "convert_to_bool (PInt 1)" using t [where i = 1] by simp
  have c4: "\<not> convert_to_bool (PInt 0)" using t [where i = 0] by simp
  have c5: "\<not> convert_to_bool (PStr ''false'')" using t [where s = "''false''"] e by simp
  have c6: "\<not> convert_to_bool (PStr '''')" using t [where s = "''''"] e by simp
  have c7: "\<not> convert_to_bool (PStr ''1'')" using t [where s = "''1''"] e by simp
  have c8: "\<not> convert_to_bool (PFloat NaN)" using t [where f = NaN] by simp
  have c9: "\<not> convert_to_bool PNone" using t by simp
  note fields = t [THEN conjunct2, THEN conjunct2, THEN conjunct2, THEN conjunct2, THEN conjunct2,
      THEN conjunct2, THEN conjunct2]
  from fields [THEN conjunct1, THEN mp, OF h1] b
  have r: "disabled (projr (fst (pm_create_rule (\<lambda>x. '''') example_flags_row ''Application'' [])))"
    "logged (projr (fst (pm_create_rule (\<lambda>x. '''') example_flags_row ''Application'' [])))"
    "\<not> sources_excluded (projr (fst (pm_create_rule (\<lambda>x. '''') example_flags_row ''Application'' [])))"
    "\<not> destinations_excluded (projr (fst (pm_create_rule (\<lambda>x. '''') example_flags_row ''Application'' [])))"
    by simp_all
  from fields [THEN conjunct2, THEN conjunct1, THEN mp, OF h2] b
  have r': "disabled (projr (fst (optum_create_rule (\<lambda>x. '''') example_flags_row ''Application'' [])))"
    "\<not> destinations_excluded (projr (fst (optum_create_rule (\<lambda>x. '''') example_flags_row ''Application'' [])))"
    by simp_all
  from fields [THEN conjunct2, THEN conjunct2, THEN conjunct1, THEN mp, OF h3] b
  have p: "p_locked (projr (fst (pm_create_policy (\<lambda>x. '''') example_locked_header [example_flags_row] [])))"
    by simp
  from fields [THEN conjunct2, THEN conjunct2, THEN conjunct2, THEN mp, OF h4] b
  have p': "p_locked (projr (fst (optum_create_policy (\<lambda>x. '''') example_locked_header [example_flags_row] {||} [])))"
    by simp
  from c1 c2 c3 c4 c5 c6 c7 c8 c9 r r' p p' show ?thesis by blast
qed

text \<open>
  C6. The claim holds for the flags of a rule, whose cells are Python's own values, and fails
  for the locked flag, which is read from the header row \<^verbatim>\<open>policy_df.iloc[0]\<close>: a cell \<^verbatim>\<open>TRUE\<close>
  there is a \<^verbatim>\<open>numpy.bool_\<close> and a cell 1 a \<^verbatim>\<open>numpy.int64\<close>. Neither passes an
  \<^verbatim>\<open>isinstance\<close> test of \<^verbatim>\<open>convert_to_bool\<close>, so the native boolean is not returned unchanged
  and the number equal to 1 is not true: both policy makers assemble the policy with
  \<^verbatim>\<open>locked\<close> false.
\<close>

theorem locked_flag_from_file:
  "\<not> convert_to_bool (PNpBool True) \<and> \<not> convert_to_bool (PNpInt 1)
   \<and> (\<exists>p. fst (pm_create_policy (\<lambda>x. '''') (example_plain_header(''locked'' \<mapsto> PNpBool True)) [] []) = Inr p
            \<and> \<not> p_locked p)
   \<and> (\<exists>p. fst (optum_create_policy (\<lambda>x. '''') (example_plain_header(''locked'' \<mapsto> PNpInt 1)) [] {||} []) = Inr p
            \<and> \<not> p_locked p)"
  by (simp add: pm_create_policy_def optum_create_policy_def Let_def get_def validate_category_def
      valid_categories_def lower_def lower_char_def example_plain_header_def
      handle_sequence_number_def next_free.simps str_int_def digit_char_def)

lemma py_eq_zero:
  "py_eq v (PInt 0) \<longleftrightarrow>
     v = PInt 0 \<or> v = PFloat (Finite 0) \<or> v = PBool False \<or> v = PNpInt 0 \<or> v = PNpBool False"
proof (cases v)
  case (PFloat f)
  then show ?thesis by (cases f) (simp_all add: py_eq_def)
qed (auto simp: py_eq_def)

text \<open>
  The \<^verbatim>\<open>sequence_number\<close> entry of the dictionary that \<^verbatim>\<open>create_policy\<close> of \<^verbatim>\<open>policymaker.py\<close>
  returns: the empty string when the header has no such column (the default 0) or when the
  cell equals zero, and the cell itself, unchanged, when it does not equal zero. Equal is
  Python's \<^verbatim>\<open>==\<close>: the cells equal to zero are 0 and \<^verbatim>\<open>False\<close>, as Python or numpy values, and
  the float 0.0.
\<close>

theorem single_policy_sequence_number:
  "(pm_create_policy float_repr policy_row rules log_file = (Inr p, log_file') \<longrightarrow>
      (policy_row ''sequence_number'' = None \<longrightarrow> p_sequence_number p = PStr '''')
      \<and> (policy_row ''sequence_number'' = Some v \<longrightarrow> py_eq v (PInt 0) \<longrightarrow> p_sequence_number p = PStr '''')
      \<and> (policy_row ''sequence_number'' = Some v \<longrightarrow> \<not> py_eq v (PInt 0) \<longrightarrow> p_sequence_number p = v))
   \<and> (py_eq v (PInt 0) \<longleftrightarrow>
        v = PInt 0 \<or> v = PFloat (Finite 0) \<or> v = PBool False \<or> v = PNpInt 0 \<or> v = PNpBool False)"
  by (auto simp: py_eq_zero get_def dest!: pm_create_policy_fields(2))

theorem single_policy_sequence_number_witness:
  "p_sequence_number (projr (fst (pm_create_policy (\<lambda>x. '''') example_plain_header [] []))) = PStr ''''
   \<and> p_sequence_number (projr (fst (pm_create_policy (\<lambda>x. '''') (example_plain_header(''sequence_number'' \<mapsto> PInt 0)) [] []))) = PStr ''''
   \<and> p_sequence_number (projr (fst (pm_create_policy (\<lambda>x. '''') (example_plain_header(''sequence_number'' \<mapsto> PInt 7)) [] []))) = PInt 7"
proof -
  have cat: "validate_category (PStr ''infrastructure'') = Inr ''Infrastructure''"
    by (simp add: validate_category_def valid_categories_def lower_def lower_char_def)
  have ok: "\<exists>y. fst (pm_create_policy (\<lambda>x. '''') (example_plain_header(''sequence_number'' := c)) [] []) = Inr y" for c
    by (simp add: pm_create_policy_def Let_def get_def example_plain_header_def cat)
  have collapse: "pm_create_policy (\<lambda>x. '''') (example_plain_header(''sequence_number'' := c)) [] []
      = (Inr (projr (fst (pm_create_policy (\<lambda>x. '''') (example_plain_header(''sequence_number'' := c)) [] []))),
         snd (pm_create_policy (\<lambda>x. '''') (example_plain_header(''sequence_number'' := c)) [] []))" for c
    using ok [of c] by (auto dest: pair_sum_collapse)
  have absent: "example_plain_header(''sequence_number'' := None) = example_plain_header"
    by (rule ext) (simp add: example_plain_header_def)
  note t = single_policy_sequence_number [THEN conjunct1, THEN mp]
  from t [OF collapse [of None], of "PInt 0"]
  have a: "p_sequence_number (projr (fst (pm_create_policy (\<lambda>x. '''') example_plain_header [] []))) = PStr ''''"
    by (simp add: absent example_plain_header_def)
  from t [OF collapse [of "Some (PInt 0)"], of "PInt 0"]
  have b: "p_sequence_number (projr (fst (pm_create_policy (\<lambda>x. '''') (example_plain_header(''sequence_number'' \<mapsto> PInt 0)) [] []))) = PStr ''''"
    by (simp add: py_eq_def)
  from t [OF collapse [of "Some (PInt 7)"], of "PInt 7"]
  have c: "p_sequence_number (projr (fst (pm_create_policy (\<lambda>x. '''') (example_plain_header(''sequence_number'' \<mapsto> PInt 7)) [] []))) = PInt 7"
    by (simp add: py_eq_def)
  from a b c show ?thesis by blast
qed

text \<open>
  C7. A sequence number equal to zero is written to the output document as the empty string,
  as the claim says. A non-zero integer is not written as it is: the cell of the header row
  \<^verbatim>\<open>policy_df.iloc[0]\<close> is a \<^verbatim>\<open>numpy.int64\<close>, \<^verbatim>\<open>create_policy\<close> passes it on unchanged, and
  \<^verbatim>\<open>json.dump\<close> raises \<^verbatim>\<open>TypeError\<close> on it, so that \<^verbatim>\<open>main\<close> ends with exit status 1 and no
  complete document. For the sequence number 7 the run fails; for 0 it writes the document
  below.
\<close>

theorem nonzero_sequence_number_not_written:
  \<open>(\<exists>p. fst (pm_create_policy (\<lambda>x. '''') (example_plain_header(''sequence_number'' \<mapsto> PNpInt 7)) [] []) = Inr p
        \<and> p_sequence_number p = PNpInt 7)
   \<and> fst (pm_main (\<lambda>x. '''') (example_plain_header(''sequence_number'' \<mapsto> PNpInt 7)) [] []) = Inl TypeError
   \<and> fst (pm_main (\<lambda>x. '''') (example_plain_header(''sequence_number'' \<mapsto> PNpInt 0)) [] []) =
       Inr (join [CHR 0x0A]
             [''{'',
              ''  "resource": ['',
              ''    {'',
              ''      "nsxt_policy_security_policy": {'',
              ''        "App1-Web": {'',
              ''          "nsx_id": "",'',
              ''          "display_name": "App1-Web",'',
              ''          "category": "Infrastructure",'',
              ''          "comments": "",'',
              ''          "description": "",'',
              ''          "domain": "default",'',
              ''          "locked": false,'',
              ''          "sequence_number": "",'',
              ''          "rule": []'',
              ''        }'',
              ''      }'',
              ''    }'',
              ''  ]'',
              ''}''])\<close>
  by (simp add: pm_main_def pm_policy_json_def pm_create_policy_def Let_def get_def validate_category_def
      valid_categories_def lower_def lower_char_def example_plain_header_def py_eq_def
      newline_indent_def json_dumps_str_def json_escape_char_def numeral_eq_Suc)

lemma py_int_convertible: "(\<exists>n. py_int v = Inr n) \<longleftrightarrow> int_convertible v"
  by (cases v rule: int_convertible.cases) (auto split: option.splits)

lemma pm_create_rule_succeeds:
  "(\<exists>r. fst (pm_create_rule float_repr rule_row category log_file) = Inr r)
     \<longleftrightarrow> (\<exists>n. py_int (get rule_row ''sequence_number'' (PInt 0)) = Inr n)"
  unfolding pm_create_rule_def Let_def by (auto split: sum.splits)

lemma optum_create_rule_succeeds:
  "(\<exists>r. fst (optum_create_rule float_repr rule_row category log_file) = Inr r)
     \<longleftrightarrow> (\<exists>n. py_int (get rule_row ''sequence_number'' (PInt 0)) = Inr n)"
  unfolding optum_create_rule_def Let_def by (auto split: sum.splits)

text \<open>
  C9 (amended). Rule normalization succeeds exactly when \<^verbatim>\<open>int()\<close> accepts the
  sequence_number cell: an integer, a boolean, a finite float, or a string holding an integer
  literal; an absent column counts as 0. An empty cell (NaN), \<^verbatim>\<open>None\<close>, an infinity or any
  other string makes \<^verbatim>\<open>create_rule\<close> raise. In a rule that is built, the absent columns
  sequence_number, action, direction, ip_version and display name take the defaults 0,
  \<^verbatim>\<open>ALLOW\<close>, \<^verbatim>\<open>IN_OUT\<close>, \<^verbatim>\<open>IPV4_IPV6\<close> and the empty string. Both policy makers behave so.
\<close>

theorem rule_normalization_failure:
  "((\<exists>r. fst (pm_create_rule float_repr rule_row category log_file) = Inr r)
      \<longleftrightarrow> int_convertible (get rule_row ''sequence_number'' (PInt 0)))
   \<and> ((\<exists>r. fst (optum_create_rule float_repr rule_row category log_file) = Inr r)
      \<longleftrightarrow> int_convertible (get rule_row ''sequence_number'' (PInt 0)))
   \<and> (pm_create_rule float_repr rule_row category log_file = (Inr r, log_file') \<longrightarrow>
        (rule_row ''sequence_number'' = None \<longrightarrow> sequence_number r = 0)
        \<and> (rule_row ''action'' = None \<longrightarrow> action r = PStr ''ALLOW'')
        \<and> (rule_row ''direction'' = None \<longrightarrow> direction r = PStr ''IN_OUT'')
        \<and> (rule_row ''ip_version'' = None \<longrightarrow> ip_version r = PStr ''IPV4_IPV6'')
        \<and> (rule_row ''display_name'' = None \<longrightarrow> display_name r = ''''))
   \<and> (optum_create_rule float_repr rule_row category log_file = (Inr r', log_file'') \<longrightarrow>
        (rule_row ''sequence_number'' = None \<longrightarrow> sequence_number r' = 0)
        \<and> (rule_row ''action'' = None \<longrightarrow> action r' = PStr ''ALLOW'')
        \<and> (rule_row ''direction'' = None \<longrightarrow> direction r' = PStr ''IN_OUT'')
        \<and> (rule_row ''ip_version'' = None \<longrightarrow> ip_version r' = PStr ''IPV4_IPV6'')
        \<and> (rule_row ''rule_display_name'' = None \<longrightarrow> display_name r' = ''''))"
proof (intro conjI impI)
  show "(\<exists>r. fst (pm_create_rule float_repr rule_row category log_file) = Inr r)
      \<longleftrightarrow> int_convertible (get rule_row ''sequence_number'' (PInt 0))"
    by (simp only: pm_create_rule_succeeds py_int_convertible)
  show "(\<exists>r. fst (optum_create_rule float_repr rule_row category log_file) = Inr r)
      \<longleftrightarrow> int_convertible (get rule_row ''sequence_number'' (PInt 0))"
    by (simp only: optum_create_rule_succeeds py_int_convertible)
next
  assume h: "pm_create_rule float_repr rule_row category log_file = (Inr r, log_file')"
  show "sequence_number r = 0" if "rule_row ''sequence_number'' = None"
    using pm_create_rule_fields(1) [OF h] that by (simp add: get_def)
  show "action r = PStr ''ALLOW''" if "rule_row ''action'' = None"
    using pm_create_rule_fields(10) [OF h] that by (simp add: get_def)
  show "direction r = PStr ''IN_OUT''" if "rule_row ''direction'' = None"
    using pm_create_rule_fields(11) [OF h] that by (simp add: get_def)
  show "ip_version r = PStr ''IPV4_IPV6''" if "rule_row ''ip_version'' = None"
    using pm_create_rule_fields(12) [OF h] that by (simp add: get_def)
  show "display_name r = ''''" if "rule_row ''display_name'' = None"
    using pm_create_rule_fields(13) [OF h] that by (simp add: get_def)
next
  assume h: "optum_create_rule float_repr rule_row category log_file = (Inr r', log_file'')"
  show "sequence_number r' = 0" if "rule_row ''sequence_number'' = None"
    using optum_create_rule_fields(1) [OF h] that by (simp add: get_def)
  show "action r' = PStr ''ALLOW''" if "rule_row ''action'' = None"
    using optum_create_rule_fields(10) [OF h] that by (simp add: get_def)
  show "direction r' = PStr ''IN_OUT''" if "rule_row ''direction'' = None"
    using optum_create_rule_fields(11) [OF h] that by (simp add: get_def)
  show "ip_version r' = PStr ''IPV4_IPV6''" if "rule_row ''ip_version'' = None"
    using optum_create_rule_fields(12) [OF h] that by (simp add: get_def)
  show "display_name r' = ''''" if "rule_row ''rule_display_name'' = None"
    using optum_create_rule_fields(13) [OF h] that by (simp add: get_def)
qed

theorem rule_normalization_failure_witness:
  "(\<exists>r. fst (pm_create_rule (\<lambda>x. '''') example_rule_row ''Infrastructure'' []) = Inr r)
   \<and> (\<exists>r. fst (optum_create_rule (\<lambda>x. '''') example_flags_row ''Infrastructure'' []) = Inr r)
   \<and> (\<nexists>r. fst (pm_create_rule (\<lambda>x. '''') (example_rule_row(''sequence_number'' \<mapsto> PStr ''abc'')) ''Infrastructure'' []) = Inr r)
   \<and> sequence_number (projr (fst (pm_create_rule (\<lambda>x. '''') example_rule_row ''Infrastructure'' []))) = 0
   \<and> direction (projr (fst (pm_create_rule (\<lambda>x. '''') example_rule_row ''Infrastructure'' []))) = PStr ''IN_OUT''
   \<and> ip_version (projr (fst (pm_create_rule (\<lambda>x. '''') example_rule_row ''Infrastructure'' []))) = PStr ''IPV4_IPV6''
   \<and> action (projr (fst (optum_create_rule (\<lambda>x. '''') example_flags_row ''Infrastructure'' []))) = PStr ''ALLOW''
   \<and> direction (projr (fst (optum_create_rule (\<lambda>x. '''') example_flags_row ''Infrastructure'' []))) = PStr ''IN_OUT''"
proof -
  note t = rule_normalization_failure
  have i1: "int_convertible (get example_rule_row ''sequence_number'' (PInt 0))"
    by (simp add: get_def example_rule_row_def)
  have i2: "int_convertible (get example_flags_row ''sequence_number'' (PInt 0))"
    by (simp add: get_def example_flags_row_def)
  have i3: "\<not> int_convertible (get (example_rule_row(''sequence_number'' \<mapsto> PStr ''abc'')) ''sequence_number'' (PInt 0))"
    by (simp add: get_def int_of_str_def int_isspace_def parse_dec_def digit_val_def)
  from t [of "\<lambda>x. ''''" example_rule_row "''Infrastructure''" "[]"] i1
  have a: "\<exists>r. fst (pm_create_rule (\<lambda>x. '''') example_rule_row ''Infrastructure'' []) = Inr r" by blast
  from t [of "\<lambda>x. ''''" example_flags_row "''Infrastructure''" "[]"] i2
  have b: "\<exists>r. fst (optum_create_rule (\<lambda>x. '''') example_flags_row ''Infrastructure'' []) = Inr r" by blast
  from t [of "\<lambda>x. ''''" "example_rule_row(''sequence_number'' \<mapsto> PStr ''abc'')" "''Infrastructure''" "[]"] i3
  have c: "\<nexists>r. fst (pm_create_rule (\<lambda>x. '''') (example_rule_row(''sequence_number'' \<mapsto> PStr ''abc'')) ''Infrastructure'' []) = Inr r" by blast
  from a have h: "pm_create_rule (\<lambda>x. '''') example_rule_row ''Infrastructure'' []
      = (Inr (projr (fst (pm_create_rule (\<lambda>x. '''') example_rule_row ''Infrastructure'' []))),
         snd (pm_create_rule (\<lambda>x. '''') example_rule_row ''Infrastructure'' []))"
    by (auto dest: pair_sum_collapse)
  from b have h': "optum_create_rule (\<lambda>x. '''') example_flags_row ''Infrastructure'' []
      = (Inr (projr (fst (optum_create_rule (\<lambda>x. '''') example_flags_row ''Infrastructure'' []))),
         snd (optum_create_rule (\<lambda>x. '''') example_flags_row ''Infrastructure'' []))"
    by (auto dest: pair_sum_collapse)
  have n: "example_rule_row ''sequence_number'' = None" "example_rule_row ''direction'' = None"
    "example_rule_row ''ip_version'' = None"
    by (simp_all add: example_rule_row_def)
  have n': "example_flags_row ''action'' = None" "example_flags_row ''direction'' = None"
    by (simp_all add: example_flags_row_def)
  from t [THEN conjunct2, THEN conjunct2, THEN conjunct1, THEN mp, OF h] n
  have d: "sequence_number (projr (fst (pm_create_rule (\<lambda>x. '''') example_rule_row ''Infrastructure'' []))) = 0"
    "direction (projr (fst (pm_create_rule (\<lambda>x. '''') example_rule_row ''Infrastructure'' []))) = PStr ''IN_OUT''"
    "ip_version (projr (fst (pm_create_rule (\<lambda>x. '''') example_rule_row ''Infrastructure'' []))) = PStr ''IPV4_IPV6''"
    by blast+
  from t [THEN conjunct2, THEN conjunct2, THEN conjunct2, THEN mp, OF h'] n'
  have d': "action (projr (fst (optum_create_rule (\<lambda>x. '''') example_flags_row ''Infrastructure'' []))) = PStr ''ALLOW''"
    "direction (projr (fst (optum_create_rule (\<lambda>x. '''') example_flags_row ''Infrastructure'' []))) = PStr ''IN_OUT''"
    by blast+
  from a b c d d' show ?thesis by blast
qed


text \<open>
  C9 as stated fails: the non-numeric sequence_number \<^verbatim>\<open>abc\<close> does not degrade to 0, it
  raises \<^verbatim>\<open>ValueError\<close> out of \<^verbatim>\<open>create_rule\<close>, and so does an empty cell.
\<close>

theorem rule_normalization_failure_counterexample:
  "fst (pm_create_rule (\<lambda>x. '''') (example_rule_row(''sequence_number'' \<mapsto> PStr ''abc'')) ''Infrastructure'' [])
     = Inl (ValueError (InvalidIntLiteral ''abc''))
   \<and> fst (optum_create_rule (\<lambda>x. '''') (example_rule_row(''sequence_number'' \<mapsto> PStr ''abc'')) ''Infrastructure'' [])
     = Inl (ValueError (InvalidIntLiteral ''abc''))
   \<and> fst (pm_create_rule (\<lambda>x. '''') (example_rule_row(''sequence_number'' \<mapsto> PFloat NaN)) ''Infrastructure'' [])
     = Inl (ValueError FloatNaNToInt)"
  by (simp add: pm_create_rule_def optum_create_rule_def get_def int_of_str_def int_isspace_def
      parse_dec_def digit_val_def)

section \<open>Properties of the IP-set maker\<close>

lemma clean_ip_addresses_empty: "no_address csv \<Longrightarrow> clean_ip_addresses csv = Inr []"
  by (cases csv) (auto simp: no_address_def clean_ip_addresses_def list_all_iff filter_empty_conv)

lemma clean_ip_addresses_nonempty:
  "clean_ip_addresses csv = Inr ips \<Longrightarrow> \<forall>ip \<in> set ips. ip \<noteq> []"
  by (cases csv) (auto simp: clean_ip_addresses_def split: if_splits)

lemma dict_set_values: "p \<in> set (dict_set d k v) \<Longrightarrow> snd p = v \<or> p \<in> set d"
  by (induction d) (auto split: if_splits)

lemma collect_groups_values:
  "collect_groups rows groups_data = Inr gd \<Longrightarrow>
   \<forall>ips \<in> set (map snd groups_data). ips \<noteq> [] \<and> (\<forall>ip \<in> set ips. ip \<noteq> []) \<Longrightarrow>
   \<forall>ips \<in> set (map snd gd). ips \<noteq> [] \<and> (\<forall>ip \<in> set ips. ip \<noteq> [])"
proof (induction rows arbitrary: groups_data)
  case Nil
  then show ?case by simp
next
  case (Cons r rows)
  from Cons.prems(1) obtain g where g: "r ''group_name'' = Some g"
    by (cases "r ''group_name''") simp_all
  show ?case
  proof (cases "isna g")
    case True
    with Cons g show ?thesis by simp
  next
    case False
    with Cons.prems(1) g obtain c where c: "r ''csv'' = Some c"
      by (cases "r ''csv''") simp_all
    with Cons.prems(1) g False obtain ips where ips: "clean_ip_addresses c = Inr ips"
      by (cases "clean_ip_addresses c") simp_all
    show ?thesis
    proof (cases "ips = []")
      case True
      with Cons g False c ips show ?thesis by simp
    next
      case ne: False
      with Cons.prems(1) g False c ips
      have run: "collect_groups rows (dict_set groups_data g ips) = Inr gd" by simp
      have "\<forall>x \<in> set (map snd (dict_set groups_data g ips)). x \<noteq> [] \<and> (\<forall>ip \<in> set x. ip \<noteq> [])"
      proof
        fix x assume "x \<in> set (map snd (dict_set groups_data g ips))"
        then obtain p where p: "p \<in> set (dict_set groups_data g ips)" "x = snd p" by auto
        from dict_set_values [OF p(1)] have "x = ips \<or> x \<in> set (map snd groups_data)"
          using p(2) by auto
        with Cons.prems(2) ne clean_ip_addresses_nonempty [OF ips]
        show "x \<noteq> [] \<and> (\<forall>ip \<in> set x. ip \<noteq> [])" by blast
      qed
      from Cons.IH [OF run this] show ?thesis .
    qed
  qed
qed

lemma join_Cons_nonempty: "x \<noteq> [] \<Longrightarrow> join sep (x # xs) \<noteq> []"
  by (cases xs) auto

lemma json_dumps_nonempty: "ips \<noteq> [] \<Longrightarrow> json_dumps ips \<noteq> ''[]''"
proof (cases ips)
  case Nil
  assume "ips \<noteq> []"
  with Nil show ?thesis by simp
next
  case (Cons x xs)
  have "join '', '' (json_dumps_str x # map json_dumps_str xs) \<noteq> []"
    by (rule join_Cons_nonempty) (simp add: json_dumps_str_def)
  then obtain c cs where "join '', '' (json_dumps_str x # map json_dumps_str xs) = c # cs"
    by (cases "join '', '' (json_dumps_str x # map json_dumps_str xs)") auto
  with Cons show ?thesis by (simp add: json_dumps_def)
qed

text \<open>
  C10. In \<^verbatim>\<open>ipset_maker.py\<close> a row whose group_name cell is empty, and a row whose csv cell
  is empty or has no non-empty piece after splitting on the comma and trimming, is passed
  over: the dictionary of groups is what it would be without the row. So every group that
  reaches the emitted locals block has a non-empty address list of non-empty addresses, and its
  \<^verbatim>\<open>addresses\<close> value is never the empty array.
\<close>

theorem ipset_rows_without_addresses:
  "(r ''group_name'' = Some group_name \<longrightarrow> isna group_name \<longrightarrow>
      collect_groups (r # rows) groups_data = collect_groups rows groups_data)
   \<and> (r ''group_name'' = Some group_name \<longrightarrow> \<not> isna group_name \<longrightarrow>
      r ''csv'' = Some csv \<longrightarrow> no_address csv \<longrightarrow>
      collect_groups (r # rows) groups_data = collect_groups rows groups_data)
   \<and> (collect_groups rows [] = Inr gd \<longrightarrow>
      (\<forall>(name, ip_addresses) \<in> set gd.
         ip_addresses \<noteq> [] \<and> (\<forall>ip \<in> set ip_addresses. ip \<noteq> [])
         \<and> json_dumps ip_addresses \<noteq> ''[]''))"
proof (intro conjI impI)
  assume "collect_groups rows [] = Inr gd"
  from collect_groups_values [OF this]
  have "\<forall>ips \<in> set (map snd gd). ips \<noteq> [] \<and> (\<forall>ip \<in> set ips. ip \<noteq> [])" by simp
  then show "\<forall>(name, ip_addresses) \<in> set gd.
         ip_addresses \<noteq> [] \<and> (\<forall>ip \<in> set ip_addresses. ip \<noteq> [])
         \<and> json_dumps ip_addresses \<noteq> ''[]''"
    using json_dumps_nonempty by fastforce
qed (simp_all add: clean_ip_addresses_empty)

theorem ipset_rows_without_addresses_witness:
  "collect_groups example_ipset_rows [] = Inr [(PStr ''DB Servers'', [''10.0.0.1'', ''10.0.0.2''])]
   \<and> json_dumps [''10.0.0.1'', ''10.0.0.2''] \<noteq> ''[]''"
proof -
  let ?r1 = "[''group_name'' \<mapsto> PFloat NaN, ''csv'' \<mapsto> PStr ''192.168.0.1'']"
  let ?r2 = "[''group_name'' \<mapsto> PStr ''Empty'', ''csv'' \<mapsto> PStr '' , ,'']"
  let ?r3 = "[''group_name'' \<mapsto> PStr ''DB Servers'', ''csv'' \<mapsto> PStr ''10.0.0.1, 10.0.0.2,'']"
  note t = ipset_rows_without_addresses
  have s1: "collect_groups (?r1 # [?r2, ?r3]) [] = collect_groups [?r2, ?r3] []"
    by (rule t [THEN conjunct1, THEN mp, THEN mp, of _ "PFloat NaN"]) simp_all
  have na: "no_address (PStr '' , ,'')"
    by (simp add: no_address_def strip_def isspace_def)
  have s2: "collect_groups (?r2 # [?r3]) [] = collect_groups [?r3] []"
    by (rule t [THEN conjunct2, THEN conjunct1, THEN mp, THEN mp, THEN mp, THEN mp,
          of _ "PStr ''Empty''" "PStr '' , ,''"]) (simp_all add: na)
  have s3: "collect_groups [?r3] [] = Inr [(PStr ''DB Servers'', [''10.0.0.1'', ''10.0.0.2''])]"
    by (simp add: clean_ip_addresses_def strip_def isspace_def)
  from s1 s2 s3 have run: "collect_groups example_ipset_rows [] = Inr [(PStr ''DB Servers'', [''10.0.0.1'', ''10.0.0.2''])]"
    by (simp add: example_ipset_rows_def)
  from t [THEN conjunct2, THEN conjunct2, THEN mp, OF run]
  have "json_dumps [''10.0.0.1'', ''10.0.0.2''] \<noteq> ''[]''" by simp
  with run show ?thesis by simp
qed















end
